theory Spec2Isabelle
  imports Complex_Main
begin

chapter \<open>JARVIS: reasoning pass and response pass of a chat client\<close>

text \<open>
  A model of \<open>src/jarvis/jarvis.py\<close>: the class \<open>ModelChain\<close> with its reasoning and response
  calls, and the command loop of \<open>main\<close>. Every method is a function from the object and
  from what the outside world answers (the prompt, the clock, the backends' streams,
  the markup printer) to
  the events the method causes, its result and the object afterwards. Line numbers are
  those of the source file.
\<close>

section \<open>Python strings\<close>

text \<open>
  A Python \<open>str\<close> is modelled as a \<open>string\<close>: a list of characters, one \<open>char\<close> per
  code point (Isabelle's \<open>char\<close> covers the code points below 256). The operations below
  are the ones \<open>jarvis.py\<close> uses: \<open>startswith\<close>, \<open>find\<close>, \<open>in\<close>, and the two slice forms
  \<open>s[i:]\<close> and \<open>s[:i]\<close>.
\<close>

definition startswith :: "string \<Rightarrow> string \<Rightarrow> bool" where
  "startswith s p = (take (length p) s = p)"

text \<open>\<open>s.find(sub)\<close>: the lowest index where \<open>sub\<close> starts in \<open>s\<close>; Python returns -1
  when there is none, the model \<open>None\<close> (see \<open>py_find\<close> for the integer).\<close>

fun str_find :: "string \<Rightarrow> string \<Rightarrow> nat option" where
  "str_find [] sub = (if sub = [] then Some 0 else None)"
| "str_find (c # cs) sub =
     (if startswith (c # cs) sub then Some 0 else map_option Suc (str_find cs sub))"

definition py_find :: "string \<Rightarrow> string \<Rightarrow> int" where
  "py_find s sub = (case str_find s sub of None \<Rightarrow> - 1 | Some i \<Rightarrow> int i)"

text \<open>\<open>sub in s\<close> for two strings: the substring test.\<close>

definition str_in :: "string \<Rightarrow> string \<Rightarrow> bool" where
  "str_in sub s = (str_find s sub \<noteq> None)"

text \<open>\<open>s[i:]\<close> and \<open>s[:i]\<close>; a negative index counts from the end, and an index out of
  range is clipped.\<close>

definition slice_from :: "string \<Rightarrow> int \<Rightarrow> string" where
  "slice_from s i = (if i < 0 then drop (nat (int (length s) + i)) s else drop (nat i) s)"

definition slice_to :: "string \<Rightarrow> int \<Rightarrow> string" where
  "slice_to s i = (if i < 0 then take (nat (int (length s) + i)) s else take (nat i) s)"

section \<open>Floating point and the elapsed-time label\<close>

text \<open>
  A Python \<open>float\<close> is an IEEE 754 binary64 number. A finite one is modelled by its exact
  value, a rational; an arithmetic operation is the exact operation followed by
  \<open>fl\<close>, rounding to the nearest binary64 value, ties to the even significand
  (53 bits; the least exponent of a unit in the last place is -1074). Infinities and
  NaN are outside the model: the readings of \<open>time.time()\<close> and their quotients by 60
  are finite.
\<close>

definition round_half_even :: "rat \<Rightarrow> int" where
  "round_half_even x =
     (let f = \<lfloor>x\<rfloor>; d = x - of_int f
      in if d < 1 / 2 then f else if 1 / 2 < d then f + 1
         else if even f then f else f + 1)"

text \<open>\<open>ilog2 x\<close> is the integer \<open>e\<close> with \<open>2^e \<le> x < 2^(e+1)\<close>, for \<open>x > 0\<close>.\<close>

definition pow2 :: "int \<Rightarrow> rat" where
  "pow2 e = (if 0 \<le> e then 2 ^ nat e else 1 / 2 ^ nat (- e))"

fun bit_length :: "nat \<Rightarrow> nat" where
  "bit_length n = (if n = 0 then 0 else Suc (bit_length (n div 2)))"

definition ilog2 :: "rat \<Rightarrow> int" where
  "ilog2 x =
     (let (p, q) = quotient_of x;
          e = int (bit_length (nat p)) - int (bit_length (nat q))
      in if pow2 e \<le> x then e else e - 1)"

definition fl :: "rat \<Rightarrow> rat" where
  "fl x =
     (if x = 0 then 0
      else let q = max (ilog2 \<bar>x\<bar> - 52) (- 1074)
           in of_int (round_half_even (x / pow2 q)) * pow2 q)"

definition fdiv :: "rat \<Rightarrow> rat \<Rightarrow> rat" where
  "fdiv a b = fl (a / b)"

text \<open>Decimal digits of a natural number, as \<open>str\<close> prints an \<open>int\<close>.\<close>

fun show_nat :: "nat \<Rightarrow> string" where
  "show_nat n =
     (if n < 10 then [''0123456789'' ! n]
      else show_nat (n div 10) @ [''0123456789'' ! (n mod 10)])"

text \<open>
  \<open>f"{x:.1f}"\<close>: the exact value of the float, correctly rounded to one decimal place
  (a tie, which a float can hit at \<open>.25\<close> and \<open>.75\<close>, goes to the even digit), written
  with its sign, its integer digits, a point and one digit.
\<close>

definition fmt_1f :: "rat \<Rightarrow> string" where
  "fmt_1f x =
     (let n = nat (round_half_even (\<bar>x\<bar> * 10))
      in (if x < 0 then ''-'' else '''') @ show_nat (n div 10) @ ''.'' @ show_nat (n mod 10))"

text \<open>Lines 182-186 of \<open>get_ollama_deepseek_reasoning\<close> (and 107-110 of
  \<open>get_official_deepseek_reasoning\<close>): the label built from \<open>elapsed_time\<close>.\<close>

definition time_str :: "rat \<Rightarrow> string" where
  "time_str elapsed_time =
     (if 60 \<le> elapsed_time then fmt_1f (fdiv elapsed_time 60) @ '' minutes''
      else fmt_1f elapsed_time @ '' seconds'')"

section \<open>Exceptions, terminal output and network streams\<close>

text \<open>
  A raised exception is a value; \<open>str_exn\<close> is Python's \<open>str(e)\<close>. The message
  texts of the exceptions the interpreter itself raises are CPython 3.11's; they reach
  nothing but the terminal.
\<close>

datatype exn =
    TransportError string
  | UnicodeDecodeError string
  | TypeError string
  | KeyError string
  | IndexError string
  | AttributeError string
  | NameError string
  | ValueError string
  | RecursionError string
  | MarkupError string

fun str_exn :: "exn \<Rightarrow> string" where
  "str_exn (TransportError m) = m"
| "str_exn (UnicodeDecodeError m) = m"
| "str_exn (TypeError m) = m"
| "str_exn (KeyError m) = m"
| "str_exn (IndexError m) = m"
| "str_exn (AttributeError m) = m"
| "str_exn (NameError m) = m"
| "str_exn (ValueError m) = m"
| "str_exn (RecursionError m) = m"
| "str_exn (MarkupError m) = m"

text \<open>A name in single quotes, as the interpreter's messages show it.\<close>

definition quoted :: "string \<Rightarrow> string" where
  "quoted s = [CHR 0x27] @ s @ [CHR 0x27]"

record message =
  role :: string
  content :: string

text \<open>
  What a method does to the world outside the \<open>ModelChain\<close> object, in order:
  \<open>Print s\<close> is the text the builtin \<open>print\<close> writes (its \<open>end\<close> included), \<open>Rprint s\<close>
  the markup string handed to rich's \<open>print\<close>, \<open>Post url model msgs\<close> the streaming
  \<open>requests.post\<close> to the local backend, \<open>Create model msgs\<close> the streaming
  \<open>chat.completions.create\<close> of a hosted client, and \<open>Close\<close> is \<open>response.close()\<close>.
  The arguments that are the same in every call (\<open>stream=True\<close>, \<open>max_tokens=1\<close>) are not
  recorded.
\<close>

datatype event =
    Print string
  | Rprint string
  | Post string string "message list"
  | Create string "message list"
  | Close

text \<open>
  \<open>rprint\<close> is rich's \<open>print\<close> (line 4), which parses its argument as console markup
  before it writes anything. On a closing tag that matches no open tag, or on a \<open>[/]\<close>
  with nothing left to close, the parser raises \<open>MarkupError\<close>; a string without \<open>[\<close> is
  never parsed. The markup strings that are constants of the source, and the label of
  line 187 (digits, a point and a word between constant tags), are well formed and are
  printed: they stand as \<open>Rprint\<close> events. Where the string holds text that the program
  does not choose (the model selector of lines 201 and 243, the message of a caught
  exception at lines 179, 223 and 269), what rich does with it is a parameter of the
  method, of the type below: \<open>None\<close> when the string is printed, \<open>Some e\<close> when the call
  raises \<open>e\<close> and prints nothing.
\<close>

type_synonym rich = "string \<Rightarrow> exn option"

text \<open>
  What the network answers: the call itself raises (\<open>ConnectFailed\<close>), or it returns
  a stream that yields the listed items and then ends, cleanly (\<open>None\<close>) or by raising
  from the iterator (\<open>Some e\<close>).
\<close>

datatype 'a response = ConnectFailed exn | Stream "'a list" "exn option"

section \<open>Lines of the local backend\<close>

text \<open>
  The value \<open>json.loads\<close> returns. A \<open>dict\<close> is the list of its items (keys distinct after
  parsing), read with \<open>map_of\<close>.
\<close>

datatype json =
    JNull
  | JBool bool
  | JInt int
  | JFloat rat
  | JStr string
  | JArr "json list"
  | JObj "(string \<times> json) list"

text \<open>
  A line of \<open>response.iter_lines()\<close>, by what lines 145-147 make of it: the empty
  keep-alive line; bytes that \<open>line.decode()\<close> rejects (a \<open>UnicodeDecodeError\<close>, which is
  not a \<open>JSONDecodeError\<close>); text that \<open>json.loads\<close> rejects with \<open>JSONDecodeError\<close>
  (\<open>BadJson\<close>); text on which \<open>json.loads\<close> raises an exception \<open>e\<close> of another class
  (\<open>LoadsRaises e\<close>: \<open>RecursionError\<close> on brackets nested deeper than the interpreter's
  recursion limit, \<open>ValueError\<close> on an integer literal of more than 4300 digits); or a
  parsed value.
\<close>

datatype line = Blank | BadUtf8 string | BadJson | LoadsRaises exn | Json json

fun py_type :: "json \<Rightarrow> string" where
  "py_type JNull = ''NoneType''"
| "py_type (JBool b) = ''bool''"
| "py_type (JInt i) = ''int''"
| "py_type (JFloat x) = ''float''"
| "py_type (JStr s) = ''str''"
| "py_type (JArr xs) = ''list''"
| "py_type (JObj kvs) = ''dict''"

text \<open>\<open>k in v\<close> for a string \<open>k\<close>: a key of a dict, an element of a list, a substring of a
  string; any other value is not iterable.\<close>

fun py_in :: "string \<Rightarrow> json \<Rightarrow> exn + bool" where
  "py_in k (JObj kvs) = Inr (k \<in> set (map fst kvs))"
| "py_in k (JArr xs) = Inr (JStr k \<in> set xs)"
| "py_in k (JStr s) = Inr (str_in k s)"
| "py_in k v = Inl (TypeError (''argument of type '' @ quoted (py_type v) @ '' is not iterable''))"

text \<open>\<open>v[k]\<close> for a string \<open>k\<close>.\<close>

fun py_getitem :: "json \<Rightarrow> string \<Rightarrow> exn + json" where
  "py_getitem (JObj kvs) k =
     (case map_of kvs k of None \<Rightarrow> Inl (KeyError (quoted k)) | Some v \<Rightarrow> Inr v)"
| "py_getitem (JArr xs) k = Inl (TypeError ''list indices must be integers or slices, not str'')"
| "py_getitem (JStr s) k = Inl (TypeError (''string indices must be integers, not '' @ quoted ''str''))"
| "py_getitem v k = Inl (TypeError (quoted (py_type v) @ '' object is not subscriptable''))"

text \<open>The right operand of \<open>s += v\<close> for a string \<open>s\<close>: a \<open>str\<close>, or else the addition
  raises.\<close>

fun str_operand :: "json \<Rightarrow> exn + string" where
  "str_operand (JStr t) = Inr t"
| "str_operand v =
     Inl (TypeError (''can only concatenate str (not \"'' @ py_type v @ ''\") to str''))"

text \<open>
  Lines 148-149 (and 261-262): the test
  \<open>"message" in chunk and "content" in chunk["message"]\<close>, then the read
  \<open>chunk["message"]["content"]\<close>. \<open>Inr None\<close>: the test is false; \<open>Inr (Some c)\<close>: it is
  true and \<open>c\<close> is the value read; \<open>Inl e\<close>: it raised.
\<close>

definition message_content :: "json \<Rightarrow> exn + json option" where
  "message_content chunk =
     (case py_in ''message'' chunk of
        Inl e \<Rightarrow> Inl e
      | Inr False \<Rightarrow> Inr None
      | Inr True \<Rightarrow>
          (case py_getitem chunk ''message'' of
             Inl e \<Rightarrow> Inl e
           | Inr m \<Rightarrow>
               (case py_in ''content'' m of
                  Inl e \<Rightarrow> Inl e
                | Inr False \<Rightarrow> Inr None
                | Inr True \<Rightarrow>
                    (case py_getitem m ''content'' of
                       Inl e \<Rightarrow> Inl e
                     | Inr c \<Rightarrow> Inr (Some c)))))"

text \<open>
  Lines 145-150 (and 258-263), up to the operand of \<open>+=\<close>: what a line gives the loop.
  \<open>Inr None\<close>: the line is passed over (it is empty, \<open>json.loads\<close> raised the
  \<open>JSONDecodeError\<close> that line 175 catches, or the test of line 148 is false);
  \<open>Inr (Some s)\<close>: its content \<open>s\<close> is added; \<open>Inl e\<close>: it raised another exception
  (in \<open>line.decode()\<close>, in \<open>json.loads\<close> or in reading the chunk), which line 175 does
  not catch and which leaves the loop.
\<close>

definition line_piece :: "line \<Rightarrow> exn + string option" where
  "line_piece l =
     (case l of
        Blank \<Rightarrow> Inr None
      | BadUtf8 m \<Rightarrow> Inl (UnicodeDecodeError m)
      | BadJson \<Rightarrow> Inr None
      | LoadsRaises e \<Rightarrow> Inl e
      | Json chunk \<Rightarrow>
          (case message_content chunk of
             Inl e \<Rightarrow> Inl e
           | Inr None \<Rightarrow> Inr None
           | Inr (Some c) \<Rightarrow>
               (case str_operand c of
                  Inl e \<Rightarrow> Inl e
                | Inr s \<Rightarrow> Inr (Some s))))"

section \<open>The ModelChain object\<close>

definition DEEPSEEK_MODEL :: string where "DEEPSEEK_MODEL = ''deepseek-reasoner''"
definition OPENROUTER_MODEL :: string where "OPENROUTER_MODEL = ''openai/gpt-4o-mini''"
definition OLLAMA_MODEL :: string where "OLLAMA_MODEL = ''qwen2.5:14b''"
definition OLLAMA_DEEPSEEK :: string where "OLLAMA_DEEPSEEK = ''deepseek-r1:14b''"

text \<open>
  The fields of \<open>ModelChain\<close> that hold data; the three client handles are left out
  (what their calls answer is a parameter of each method below).
\<close>

record ModelChain =
  deepseek_api_key :: "string option"
  openrouter_api_key :: "string option"
  has_official_deepseek :: bool
  has_openrouter :: bool
  deepseek_messages :: "message list"
  openrouter_messages :: "message list"
  ollama_messages :: "message list"
  current_model :: string
  show_reasoning :: bool
  use_ollama_deepseek :: bool
  ollama_base_url :: string

text \<open>\<open>bool(os.getenv(...))\<close>: the variable is set and not empty.\<close>

definition py_bool :: "string option \<Rightarrow> bool" where
  "py_bool v = (case v of None \<Rightarrow> False | Some s \<Rightarrow> s \<noteq> [])"

text \<open>\<open>ModelChain.__init__\<close>, from the two environment variables.\<close>

definition ModelChain_init :: "string option \<Rightarrow> string option \<Rightarrow> ModelChain" where
  "ModelChain_init deepseek_key openrouter_key =
     \<lparr> deepseek_api_key = deepseek_key,
       openrouter_api_key = openrouter_key,
       has_official_deepseek = py_bool deepseek_key,
       has_openrouter = py_bool openrouter_key,
       deepseek_messages = [],
       openrouter_messages = [],
       ollama_messages = [],
       current_model = (if \<not> py_bool openrouter_key then OLLAMA_MODEL else OPENROUTER_MODEL),
       show_reasoning = True,
       use_ollama_deepseek = (\<not> py_bool deepseek_key),
       ollama_base_url = ''http://localhost:11434/api'' \<rparr>"

text \<open>\<open>set_model\<close> (lines 60-66).\<close>

definition set_model :: "ModelChain \<Rightarrow> string \<Rightarrow> event list \<times> ModelChain" where
  "set_model self model_name =
     (let (out, self1) =
        (if \<not> has_openrouter self \<and> \<not> startswith model_name ''ollama:''
         then ([Rprint ''\<newline>[red]Warning: OpenRouter API key not found, falling back to Ollama model[/]''],
               self\<lparr>current_model := OLLAMA_MODEL\<rparr>)
         else ([], self\<lparr>current_model := model_name\<rparr>))
      in (out, self1\<lparr>use_ollama_deepseek := startswith model_name ''ollama:deepseek''\<rparr>))"

definition get_model_display_name :: "ModelChain \<Rightarrow> string" where
  "get_model_display_name self = current_model self"

text \<open>\<open>s.replace(old, new)\<close>: every occurrence of \<open>old\<close>, left to right, none overlapping.\<close>

function str_replace :: "string \<Rightarrow> string \<Rightarrow> string \<Rightarrow> string" where
  "str_replace [] old new = (if old = [] then new else [])"
| "str_replace (c # cs) old new =
     (if old = [] then new @ c # str_replace cs old new
      else if startswith (c # cs) old then new @ str_replace (drop (length old) (c # cs)) old new
      else c # str_replace cs old new)"
  by pat_completeness auto
termination
  by (relation "measure (\<lambda>(s, old, new). length s)") auto

section \<open>The local reasoning call\<close>

text \<open>The three local variables of the loop in \<open>get_ollama_deepseek_reasoning\<close>
  (lines 140-142).\<close>

record think_vars =
  reasoning_content :: string
  current_chunk :: string
  has_started_think :: bool

text \<open>
  Lines 152-173, run once \<open>content\<close> has been added to \<open>current_chunk\<close>. The result is the
  events, the variables, and whether the \<open>break\<close> of line 168 was taken.
\<close>

definition think_tags :: "bool \<Rightarrow> think_vars \<Rightarrow> event list \<times> think_vars \<times> bool" where
  "think_tags sr v =
     (let (out1, v1) =
        (if \<not> has_started_think v \<and> str_in ''<think>'' (current_chunk v)
         then ((if sr then [Print ''<think>''] else []),
               v\<lparr> has_started_think := True,
                  current_chunk :=
                    slice_from (current_chunk v) (py_find (current_chunk v) ''<think>'' + 7),
                  reasoning_content := reasoning_content v @ ''<think>'' \<rparr>)
         else ([], v))
      in if has_started_think v1 then
           (if str_in ''</think>'' (current_chunk v1) then
              (let end_idx = py_find (current_chunk v1) ''</think>''
               in (out1 @ (if sr then [Print (slice_to (current_chunk v1) end_idx),
                                        Print ''</think>''] else [])
                        @ [Close],
                   v1\<lparr> reasoning_content :=
                         reasoning_content v1 @ slice_to (current_chunk v1) end_idx @ ''</think>'' \<rparr>,
                   True))
            else (out1 @ (if sr then [Print (current_chunk v1)] else []),
                  v1\<lparr> reasoning_content := reasoning_content v1 @ current_chunk v1,
                      current_chunk := [] \<rparr>,
                  False))
         else (out1, v1, False))"

text \<open>
  One pass of the loop body, lines 145-176. A \<open>JSONDecodeError\<close> is caught by line 175
  and the loop goes on; every other exception leaves the loop.
\<close>

definition think_line :: "bool \<Rightarrow> think_vars \<Rightarrow> line \<Rightarrow> event list \<times> (exn + think_vars \<times> bool)" where
  "think_line sr v l =
     (case line_piece l of
        Inl e \<Rightarrow> ([], Inl e)
      | Inr None \<Rightarrow> ([], Inr (v, False))
      | Inr (Some s) \<Rightarrow>
          (case think_tags sr (v\<lparr>current_chunk := current_chunk v @ s\<rparr>) of
             (out, v', brk) \<Rightarrow> (out, Inr (v', brk))))"

text \<open>The loop of line 144 over the lines the stream yields; \<open>fin\<close> is how the stream
  ends. After a \<open>break\<close> nothing more is read.\<close>

fun think_loop ::
  "bool \<Rightarrow> think_vars \<Rightarrow> line list \<Rightarrow> exn option \<Rightarrow> event list \<times> (exn + think_vars \<times> bool)" where
  "think_loop sr v [] fin = ([], (case fin of None \<Rightarrow> Inr (v, False) | Some e \<Rightarrow> Inl e))"
| "think_loop sr v (l # ls) fin =
     (case think_line sr v l of
        (out, Inl e) \<Rightarrow> (out, Inl e)
      | (out, Inr (v', brk)) \<Rightarrow>
          (if brk then (out, Inr (v', True))
           else (case think_loop sr v' ls fin of (out', r) \<Rightarrow> (out @ out', r))))"

text \<open>The request of lines 124-138.\<close>

definition think_request :: "ModelChain \<Rightarrow> string \<Rightarrow> event" where
  "think_request self user_input =
     Post (ollama_base_url self @ ''/chat'')
          (str_replace OLLAMA_DEEPSEEK ''ollama:'' [])
          [\<lparr> role = ''system'',
              content = ''You are a helpful assistant that thinks step by step. Format your response as: <think>your step by step reasoning</think> and stop immediately after closing the think tag.'' \<rparr>,
           \<lparr> role = ''user'',
              content = ''Analyze this request step by step:\<newline>'' @ user_input \<rparr>]"

text \<open>The \<open>try\<close> block, lines 129-176.\<close>

definition think_try ::
  "ModelChain \<Rightarrow> string \<Rightarrow> line response \<Rightarrow> event list \<times> (exn + think_vars \<times> bool)" where
  "think_try self user_input resp =
     (case resp of
        ConnectFailed e \<Rightarrow> ([think_request self user_input], Inl e)
      | Stream ls fin \<Rightarrow>
          (case think_loop (show_reasoning self)
                  \<lparr> reasoning_content = [], current_chunk = [], has_started_think = False \<rparr>
                  ls fin of
             (out, r) \<Rightarrow> (think_request self user_input # out, r)))"

definition stream_error_text :: string where
  "stream_error_text = ''Error occurred while streaming response''"

text \<open>The markup string of lines 179, 223 and 269.\<close>

definition stream_error_markup :: "exn \<Rightarrow> string" where
  "stream_error_markup e = ''\<newline>[red]Error in streaming response: '' @ str_exn e @ ''[/]''"

text \<open>
  \<open>get_ollama_deepseek_reasoning\<close> (lines 117-191). \<open>rprint\<close> is what rich does with a
  markup string, \<open>elapsed_time\<close> the value of \<open>time.time() - start_time\<close> at line 182 and
  \<open>resp\<close> what the backend answers. The handler of lines 178-180 prints the caught
  exception's message through rich: when that call raises, its exception leaves the
  method (\<open>Inl\<close>) and line 180 is not reached. The method leaves \<open>self\<close> as it was.
\<close>

definition get_ollama_deepseek_reasoning ::
  "rich \<Rightarrow> ModelChain \<Rightarrow> string \<Rightarrow> rat \<Rightarrow> line response
     \<Rightarrow> event list \<times> (exn + string) \<times> ModelChain" where
  "get_ollama_deepseek_reasoning rprint self user_input elapsed_time resp =
     (let out0 = (if show_reasoning self then [Rprint ''\<newline>[blue]Reasoning Process[/]''] else [])
      in case think_try self user_input resp of
           (out, Inl e) \<Rightarrow>
             (case rprint (stream_error_markup e) of
                Some e' \<Rightarrow> (out0 @ out, Inl e', self)
              | None \<Rightarrow>
                  (out0 @ out @ [Rprint (stream_error_markup e)], Inr stream_error_text, self))
         | (out, Inr (v, brk)) \<Rightarrow>
             (out0 @ out
                @ [Rprint (''\<newline>\<newline>[yellow]Thought for '' @ time_str elapsed_time @ ''[/]'')]
                @ (if show_reasoning self then [Print ''\<newline>\<newline>''] else []),
              Inr (reasoning_content v), self))"

section \<open>The hosted reasoning call\<close>

text \<open>
  A chunk of a hosted stream is its list \<open>choices\<close>, each choice given by its \<open>delta\<close>. An
  attribute of a delta is missing, \<open>None\<close> or a string.
\<close>

datatype attr = Absent | PyNone | Str string

record delta =
  delta_reasoning_content :: attr
  delta_content :: attr

type_synonym chunk = "delta list"

text \<open>Reading the attribute \<open>name\<close> of a delta.\<close>

definition get_attr :: "string \<Rightarrow> attr \<Rightarrow> exn + string option" where
  "get_attr name a =
     (case a of
        Absent \<Rightarrow>
          Inl (AttributeError (quoted ''ChoiceDelta'' @ '' object has no attribute '' @ quoted name))
      | PyNone \<Rightarrow> Inr None
      | Str s \<Rightarrow> Inr (Some s))"

text \<open>Lines 103-104: the \<open>elif\<close> branch.\<close>

definition official_content :: "string \<Rightarrow> string \<Rightarrow> delta \<Rightarrow> event list \<times> (exn + string \<times> string)" where
  "official_content reasoning final_content d =
     (case get_attr ''content'' (delta_content d) of
        Inl e \<Rightarrow> ([], Inl e)
      | Inr None \<Rightarrow> ([], Inr (reasoning, final_content))
      | Inr (Some c) \<Rightarrow>
          ([], Inr (reasoning, (if c \<noteq> [] then final_content @ c else final_content))))"

text \<open>Lines 98-104, one pass of the loop; the pair is \<open>reasoning_content\<close>,
  \<open>final_content\<close>.\<close>

definition official_chunk ::
  "bool \<Rightarrow> string \<Rightarrow> string \<Rightarrow> chunk \<Rightarrow> event list \<times> (exn + string \<times> string)" where
  "official_chunk sr reasoning final_content ch =
     (case ch of
        [] \<Rightarrow> ([], Inl (IndexError ''list index out of range''))
      | d # ds \<Rightarrow>
          (case get_attr ''reasoning_content'' (delta_reasoning_content d) of
             Inl e \<Rightarrow> ([], Inl e)
           | Inr None \<Rightarrow> official_content reasoning final_content d
           | Inr (Some reasoning_piece) \<Rightarrow>
               (if reasoning_piece \<noteq> []
                then ((if sr then [Print reasoning_piece] else []),
                      Inr (reasoning @ reasoning_piece, final_content))
                else official_content reasoning final_content d)))"

fun official_loop ::
  "bool \<Rightarrow> string \<Rightarrow> string \<Rightarrow> chunk list \<Rightarrow> exn option \<Rightarrow> event list \<times> (exn + string \<times> string)" where
  "official_loop sr reasoning final_content [] fin =
     ([], (case fin of None \<Rightarrow> Inr (reasoning, final_content) | Some e \<Rightarrow> Inl e))"
| "official_loop sr reasoning final_content (ch # chs) fin =
     (case official_chunk sr reasoning final_content ch of
        (out, Inl e) \<Rightarrow> (out, Inl e)
      | (out, Inr (reasoning', final_content')) \<Rightarrow>
          (case official_loop sr reasoning' final_content' chs fin of
             (out', r) \<Rightarrow> (out @ out', r)))"

text \<open>
  \<open>get_official_deepseek_reasoning\<close> (lines 80-115). Nothing in it catches an exception,
  so one raised by the call, by the stream or by a chunk leaves the method (\<open>Inl\<close>), with
  \<open>self\<close> as it is by then. Line 106 reads \<open>start_time\<close>, which is a local variable of
  \<open>get_deepseek_reasoning\<close> and neither a local of this method nor a global of the
  module: once the stream is drained the method raises \<open>NameError\<close>, and lines 107-115
  (the label, the last \<open>print\<close>, the \<open>return\<close>) are never reached.
\<close>

definition get_official_deepseek_reasoning ::
  "ModelChain \<Rightarrow> string \<Rightarrow> chunk response \<Rightarrow> event list \<times> (exn + string) \<times> ModelChain" where
  "get_official_deepseek_reasoning self user_input resp =
     (let self1 = self\<lparr>deepseek_messages :=
                        deepseek_messages self @ [\<lparr>role = ''user'', content = user_input\<rparr>]\<rparr>;
          out0 = (if show_reasoning self1 then [Rprint ''\<newline>[blue]Reasoning Process[/]''] else [])
                   @ [Create DEEPSEEK_MODEL (deepseek_messages self1)]
      in case resp of
           ConnectFailed e \<Rightarrow> (out0, Inl e, self1)
         | Stream chs fin \<Rightarrow>
             (case official_loop (show_reasoning self1) [] [] chs fin of
                (out, Inl e) \<Rightarrow> (out0 @ out, Inl e, self1)
              | (out, Inr (reasoning, final_content)) \<Rightarrow>
                  (out0 @ out,
                   Inl (NameError (''name '' @ quoted ''start_time'' @ '' is not defined'')),
                   self1)))"

text \<open>\<open>get_deepseek_reasoning\<close> (lines 71-78).\<close>

definition get_deepseek_reasoning ::
  "rich \<Rightarrow> ModelChain \<Rightarrow> string \<Rightarrow> rat \<Rightarrow> line response \<Rightarrow> chunk response
     \<Rightarrow> event list \<times> (exn + string) \<times> ModelChain" where
  "get_deepseek_reasoning rprint self user_input elapsed_time ollama_resp official_resp =
     (if \<not> has_official_deepseek self \<or> use_ollama_deepseek self
      then get_ollama_deepseek_reasoning rprint self user_input elapsed_time ollama_resp
      else get_official_deepseek_reasoning self user_input official_resp)"

section \<open>The response calls\<close>

text \<open>The prompt of lines 194-197 and 233-236.\<close>

definition combined_prompt :: "string \<Rightarrow> string \<Rightarrow> string" where
  "combined_prompt user_input reasoning =
     ''<question>'' @ user_input @ ''</question>\<newline>\<newline>'' @ reasoning @ ''\<newline>\<newline>''"

text \<open>Lines 212-220: one chunk of the hosted response. The inner \<open>try\<close> catches what
  the chunk raises and the loop goes on. The only exception a chunk of this model
  raises is the \<open>IndexError\<close> of \<open>chunk.choices[0]\<close>, whose message has no \<open>[\<close>: rich
  prints line 219.\<close>

definition openrouter_chunk :: "string \<Rightarrow> chunk \<Rightarrow> event list \<times> string" where
  "openrouter_chunk full_response ch =
     (case ch of
        [] \<Rightarrow>
          ([Rprint (''\<newline>[red]Error processing chunk: ''
                      @ str_exn (IndexError ''list index out of range'') @ ''[/]'')],
           full_response)
      | d # ds \<Rightarrow>
          (case delta_content d of
             Absent \<Rightarrow> ([], full_response)
           | PyNone \<Rightarrow> ([], full_response)
           | Str content_piece \<Rightarrow> ([Print content_piece], full_response @ content_piece)))"

fun openrouter_loop :: "string \<Rightarrow> chunk list \<Rightarrow> exn option \<Rightarrow> event list \<times> (exn + string)" where
  "openrouter_loop full_response [] fin =
     ([], (case fin of None \<Rightarrow> Inr full_response | Some e \<Rightarrow> Inl e))"
| "openrouter_loop full_response (ch # chs) fin =
     (case openrouter_chunk full_response ch of
        (out, full_response') \<Rightarrow>
          (case openrouter_loop full_response' chs fin of (out', r) \<Rightarrow> (out @ out', r)))"

text \<open>
  \<open>get_openrouter_response\<close> (lines 193-230). Line 201 prints the selector through rich
  after the append of line 199 and before the \<open>try\<close>: when it raises, the exception
  leaves the method with the user prompt already in \<open>openrouter_messages\<close>. When the
  print of line 223 raises inside the handler, its exception leaves the method and
  line 224 is not reached.
\<close>

definition get_openrouter_response ::
  "rich \<Rightarrow> ModelChain \<Rightarrow> string \<Rightarrow> string \<Rightarrow> chunk response
     \<Rightarrow> event list \<times> (exn + string) \<times> ModelChain" where
  "get_openrouter_response rprint self user_input reasoning resp =
     (let self1 = self\<lparr>openrouter_messages :=
                        openrouter_messages self
                          @ [\<lparr>role = ''user'', content = combined_prompt user_input reasoning\<rparr>]\<rparr>
      in case rprint (''[green]'' @ get_model_display_name self1 @ ''[/]'') of
           Some e \<Rightarrow> ([], Inl e, self1)
         | None \<Rightarrow>
             (let out0 = [Rprint (''[green]'' @ get_model_display_name self1 @ ''[/]''),
                          Create (current_model self1) (openrouter_messages self1)]
              in case (case resp of
                         ConnectFailed e \<Rightarrow> ([], Inl e)
                       | Stream chs fin \<Rightarrow> openrouter_loop [] chs fin) of
                   (out, Inl e) \<Rightarrow>
                     (case rprint (stream_error_markup e) of
                        Some e' \<Rightarrow> (out0 @ out, Inl e', self1)
                      | None \<Rightarrow>
                          (out0 @ out @ [Rprint (stream_error_markup e)],
                           Inr stream_error_text, self1))
                 | (out, Inr full_response) \<Rightarrow>
                     (out0 @ out @ [Print ''\<newline>\<newline>''],
                      Inr full_response,
                      self1\<lparr> deepseek_messages :=
                                deepseek_messages self1
                                  @ [\<lparr>role = ''assistant'', content = full_response\<rparr>],
                              openrouter_messages :=
                                openrouter_messages self1
                                  @ [\<lparr>role = ''assistant'', content = full_response\<rparr>] \<rparr>)))"

text \<open>Lines 258-266: one line of the local response.\<close>

definition ollama_line :: "string \<Rightarrow> line \<Rightarrow> event list \<times> (exn + string)" where
  "ollama_line full_response l =
     (case line_piece l of
        Inl e \<Rightarrow> ([], Inl e)
      | Inr None \<Rightarrow> ([], Inr full_response)
      | Inr (Some content_piece) \<Rightarrow>
          ([Print content_piece], Inr (full_response @ content_piece)))"

fun ollama_loop :: "string \<Rightarrow> line list \<Rightarrow> exn option \<Rightarrow> event list \<times> (exn + string)" where
  "ollama_loop full_response [] fin =
     ([], (case fin of None \<Rightarrow> Inr full_response | Some e \<Rightarrow> Inl e))"
| "ollama_loop full_response (l # ls) fin =
     (case ollama_line full_response l of
        (out, Inl e) \<Rightarrow> (out, Inl e)
      | (out, Inr full_response') \<Rightarrow>
          (case ollama_loop full_response' ls fin of (out', r) \<Rightarrow> (out @ out', r)))"

text \<open>
  \<open>get_ollama_response\<close> (lines 232-276). Line 243 prints the selector through rich
  before the \<open>try\<close>: when it raises, the exception leaves the method and no request is
  made. When the print of line 269 raises inside the handler, its exception leaves the
  method and line 270 is not reached.
\<close>

definition get_ollama_response ::
  "rich \<Rightarrow> ModelChain \<Rightarrow> string \<Rightarrow> string \<Rightarrow> line response
     \<Rightarrow> event list \<times> (exn + string) \<times> ModelChain" where
  "get_ollama_response rprint self user_input reasoning resp =
     (case rprint (''[green]'' @ get_model_display_name self @ ''[/]'') of
        Some e \<Rightarrow> ([], Inl e, self)
      | None \<Rightarrow>
          (let out0 = [Rprint (''[green]'' @ get_model_display_name self @ ''[/]''),
                       Post (ollama_base_url self @ ''/chat'')
                            (str_replace (current_model self) ''ollama:'' [])
                            [\<lparr> role = ''system'',
                                content = ''You are a helpful assistant that provides clear and concise answers.'' \<rparr>,
                             \<lparr> role = ''user'', content = combined_prompt user_input reasoning \<rparr>]]
           in case (case resp of
                      ConnectFailed e \<Rightarrow> ([], Inl e)
                    | Stream ls fin \<Rightarrow> ollama_loop [] ls fin) of
                (out, Inl e) \<Rightarrow>
                  (case rprint (stream_error_markup e) of
                     Some e' \<Rightarrow> (out0 @ out, Inl e', self)
                   | None \<Rightarrow>
                       (out0 @ out @ [Rprint (stream_error_markup e)],
                        Inr stream_error_text, self))
              | (out, Inr full_response) \<Rightarrow>
                  (out0 @ out @ [Print ''\<newline>\<newline>''],
                   Inr full_response,
                   self\<lparr> deepseek_messages :=
                            deepseek_messages self
                              @ [\<lparr>role = ''assistant'', content = full_response\<rparr>],
                         ollama_messages :=
                            ollama_messages self
                              @ [\<lparr>role = ''assistant'', content = full_response\<rparr>] \<rparr>)))"

text \<open>\<open>get_response\<close> (lines 278-283).\<close>

definition get_response ::
  "rich \<Rightarrow> ModelChain \<Rightarrow> string \<Rightarrow> string \<Rightarrow> line response \<Rightarrow> chunk response
     \<Rightarrow> event list \<times> (exn + string) \<times> ModelChain" where
  "get_response rprint self user_input reasoning ollama_resp openrouter_resp =
     (if \<not> has_openrouter self \<or> startswith (current_model self) ''ollama:''
      then get_ollama_response rprint self user_input reasoning ollama_resp
      else get_openrouter_response rprint self user_input reasoning openrouter_resp)"

section \<open>The command loop\<close>

text \<open>\<open>str.strip()\<close> and \<open>str.lower()\<close> on the code points below 256: Python's white space
  there is 9-13, 28-32, 133 and 160; its capital letters are A-Z and 192-222 without
  215, each 32 below its small letter.\<close>

definition is_space :: "char \<Rightarrow> bool" where
  "is_space c =
     (let n = (of_char c :: nat)
      in (9 \<le> n \<and> n \<le> 13) \<or> (28 \<le> n \<and> n \<le> 32) \<or> n = 133 \<or> n = 160)"

definition str_strip :: "string \<Rightarrow> string" where
  "str_strip s = rev (dropWhile is_space (rev (dropWhile is_space s)))"

definition lower_char :: "char \<Rightarrow> char" where
  "lower_char c =
     (let n = (of_char c :: nat)
      in if (65 \<le> n \<and> n \<le> 90) \<or> (192 \<le> n \<and> n \<le> 222 \<and> n \<noteq> 215)
         then char_of (n + 32) else c)"

definition str_lower :: "string \<Rightarrow> string" where
  "str_lower s = map lower_char s"

text \<open>What \<open>session.prompt\<close> gives: a line of text, or one of the two exceptions the loop
  catches. (An interrupt that arrives while a backend is being read is asynchronous and
  is not part of the model.)\<close>

datatype prompt = Input string | KeyboardInterrupt | EOFError

text \<open>How one pass of \<open>while True\<close> ends: \<open>continue\<close> (or the end of the body), \<open>break\<close>, or
  an exception that the loop does not catch and that ends the process.\<close>

datatype control = Continue | Break | Raise exn

text \<open>What the outside world answers during one turn: what rich does with a markup
  string, the elapsed time the local reasoning call measures, and the answer of each of
  the four backends (a turn uses two of them).\<close>

record turn_env =
  rich_print :: rich
  think_elapsed :: rat
  ollama_think_answer :: "line response"
  deepseek_answer :: "chunk response"
  ollama_answer :: "line response"
  openrouter_answer :: "chunk response"

text \<open>The character U+1F44B of the farewell, beyond the range of \<open>char\<close>, stands as its
  four UTF-8 bytes.\<close>

definition waving_hand :: string where
  "waving_hand = [CHR 0xF0, CHR 0x9F, CHR 0x91, CHR 0x8B]"

text \<open>Lines 339-340: a turn. An exception that leaves either call is neither
  \<open>KeyboardInterrupt\<close> nor \<open>EOFError\<close>, so it leaves the loop and \<open>main\<close>.\<close>

definition run_turn :: "ModelChain \<Rightarrow> string \<Rightarrow> turn_env \<Rightarrow> event list \<times> control \<times> ModelChain" where
  "run_turn chain user_input env =
     (case get_deepseek_reasoning (rich_print env) chain user_input (think_elapsed env)
             (ollama_think_answer env) (deepseek_answer env) of
        (out1, Inl e, chain1) \<Rightarrow> (out1, Raise e, chain1)
      | (out1, Inr reasoning, chain1) \<Rightarrow>
          (case get_response (rich_print env) chain1 user_input reasoning
                  (ollama_answer env) (openrouter_answer env) of
             (out2, Inl e, chain2) \<Rightarrow> (out1 @ out2, Raise e, chain2)
           | (out2, Inr response, chain2) \<Rightarrow> (out1 @ out2, Continue, chain2)))"

text \<open>Lines 313-345: one pass of the loop of \<open>main\<close>.\<close>

definition main_step :: "ModelChain \<Rightarrow> prompt \<Rightarrow> turn_env \<Rightarrow> event list \<times> control \<times> ModelChain" where
  "main_step chain p env =
     (case p of
        KeyboardInterrupt \<Rightarrow> ([], Continue, chain)
      | EOFError \<Rightarrow> ([], Break, chain)
      | Input text \<Rightarrow>
          (let user_input = str_strip text
           in if str_lower user_input = ''quit'' then
                ([Print (''\<newline>Goodbye! '' @ waving_hand @ ''\<newline>'')], Break, chain)
              else if str_lower user_input = ''clear'' then
                ([Rprint ''\<newline>[magenta]Chat history cleared![/]\<newline>''],
                 Continue,
                 chain\<lparr>deepseek_messages := [], openrouter_messages := [], ollama_messages := []\<rparr>)
              else if startswith (str_lower user_input) ''model '' then
                (let new_model = str_strip (slice_from user_input 6)
                 in case set_model chain new_model of
                      (out, chain1) \<Rightarrow>
                        (out @ [Print (''\<newline>Changed model to: '' @ get_model_display_name chain1
                                         @ ''\<newline>\<newline>'')],
                         Continue, chain1))
              else if str_lower user_input = ''reasoning'' then
                (let chain1 = chain\<lparr>show_reasoning := \<not> show_reasoning chain\<rparr>;
                     status = (if show_reasoning chain1 then ''visible'' else ''hidden'')
                 in ([Rprint (''\<newline>[magenta]Reasoning process is now '' @ status @ ''[/]\<newline>'')],
                     Continue, chain1))
              else run_turn chain user_input env))"

text \<open>The loop, over what the prompt and the backends give pass by pass. It stops at the
  first \<open>break\<close> or uncaught exception; \<open>Continue\<close> as the result says that the loop is
  still running when the list is used up.\<close>

fun main_loop :: "ModelChain \<Rightarrow> (prompt \<times> turn_env) list \<Rightarrow> event list \<times> control \<times> ModelChain" where
  "main_loop chain [] = ([], Continue, chain)"
| "main_loop chain ((p, env) # rest) =
     (case main_step chain p env of
        (out, Continue, chain1) \<Rightarrow>
          (case main_loop chain1 rest of (out', r) \<Rightarrow> (out @ out', r))
      | (out, Break, chain1) \<Rightarrow> (out, Break, chain1)
      | (out, Raise e, chain1) \<Rightarrow> (out, Raise e, chain1))"

section \<open>Stream items used in the examples\<close>

text \<open>The line the local backend sends for a fragment \<open>s\<close> of the answer:
  \<open>{"message": {"role": "assistant", "content": s}, "done": false}\<close>.\<close>

definition content_line :: "string \<Rightarrow> line" where
  "content_line s =
     Json (JObj [(''message'', JObj [(''role'', JStr ''assistant''), (''content'', JStr s)]),
                 (''done'', JBool False)])"

text \<open>
  Two lines that fail to decode with an exception that is not a \<open>JSONDecodeError\<close>: the
  line of the single byte \<open>0xff\<close>, which is not UTF-8, and a line of 100000 opening
  brackets, on which \<open>json.loads\<close> exceeds the recursion limit. The messages are
  CPython 3.11's.
\<close>

definition byte_ff_line :: line where
  "byte_ff_line =
     BadUtf8 (quoted ''utf-8'' @ '' codec can'' @ [CHR 0x27]
                @ ''t decode byte 0xff in position 0: invalid start byte'')"

definition deep_brackets_line :: line where
  "deep_brackets_line =
     LoadsRaises (RecursionError
       ''maximum recursion depth exceeded while decoding a JSON array from a unicode string'')"

text \<open>The chunk a hosted backend sends for an answer fragment, and the one the hosted
  reasoning backend sends for a reasoning fragment.\<close>

definition content_chunk :: "string \<Rightarrow> chunk" where
  "content_chunk s = [\<lparr>delta_reasoning_content = PyNone, delta_content = Str s\<rparr>]"

definition reasoning_chunk :: "string \<Rightarrow> chunk" where
  "reasoning_chunk s = [\<lparr>delta_reasoning_content = Str s, delta_content = PyNone\<rparr>]"

text \<open>
  What rich 13 does with the markup strings that the examples of this theory hand to
  it. It prints every one of them but two: the selector line of the selector
  \<open>ollama:[/]\<close>, in which the second \<open>[/]\<close> has nothing left to close, and the error line
  of a fault whose message is \<open>bad [/x] gateway\<close>, in which \<open>[/x]\<close> matches no open tag.
\<close>

definition rich_sample :: rich where
  "rich_sample s =
     (if s = ''[green]ollama:[/][/]'' then
        Some (MarkupError (''closing tag '' @ quoted ''[/]''
                             @ '' at position 17 has nothing to close''))
      else if s = ''\<newline>[red]Error in streaming response: bad [/x] gateway[/]'' then
        Some (MarkupError (''closing tag '' @ quoted ''[/x]''
                             @ '' at position 39 doesn'' @ [CHR 0x27] @ ''t match any open tag''))
      else None)"

text \<open>A turn in which the reasoning backend (local or hosted) gives the reasoning
  \<open>because Y\<close> and the response backend (local or hosted) answers \<open>X is Y\<close>.\<close>

definition scenario_env :: turn_env where
  "scenario_env =
     \<lparr> rich_print = rich_sample,
       think_elapsed = 45,
       ollama_think_answer = Stream [content_line ''<think>because Y</think>''] None,
       deepseek_answer = Stream [reasoning_chunk ''because Y''] None,
       ollama_answer = Stream [content_line ''X is '', content_line ''Y''] None,
       openrouter_answer = Stream [content_chunk ''X is '', content_chunk ''Y''] None \<rparr>"

text \<open>A turn in which the reasoning is as above and the response backends cannot be
  reached.\<close>

definition refused_env :: turn_env where
  "refused_env =
     \<lparr> rich_print = rich_sample,
       think_elapsed = 45,
       ollama_think_answer = Stream [content_line ''<think>because Y</think>''] None,
       deepseek_answer = Stream [reasoning_chunk ''because Y''] None,
       ollama_answer = ConnectFailed (TransportError ''Connection refused''),
       openrouter_answer = ConnectFailed (TransportError ''Connection refused'') \<rparr>"

section \<open>The text a stream carries\<close>

text \<open>The fragments that the loop adds (the \<open>content\<close> of each line that has one),
  concatenated in arrival order: what the loops of lines 144 and 257 have read when the
  stream ends.\<close>

fun stream_text :: "line list \<Rightarrow> string" where
  "stream_text [] = []"
| "stream_text (l # ls) =
     (case line_piece l of Inr (Some s) \<Rightarrow> s @ stream_text ls | _ \<Rightarrow> stream_text ls)"

text \<open>No line of the stream raises an exception that leaves the loop.\<close>

definition no_line_raises :: "line list \<Rightarrow> bool" where
  "no_line_raises ls = list_all (\<lambda>l. \<not> isl (line_piece l)) ls"

text \<open>The fragment a chunk of a hosted response stream adds (the \<open>content\<close> of its first
  choice when that is a string), and the fragments of a stream concatenated in arrival
  order.\<close>

definition chunk_piece :: "chunk \<Rightarrow> string" where
  "chunk_piece ch =
     (case ch of
        [] \<Rightarrow> []
      | d # ds \<Rightarrow> (case delta_content d of Absent \<Rightarrow> [] | PyNone \<Rightarrow> [] | Str s \<Rightarrow> s))"

definition chunks_text :: "chunk list \<Rightarrow> string" where
  "chunks_text chs = concat (map chunk_piece chs)"

section \<open>The visibility flag reaches only the terminal\<close>









section \<open>What the reasoning calls do to the object\<close>

lemma ollama_reasoning_self:
  "snd (snd (get_ollama_deepseek_reasoning rp self u t resp)) = self"
  by (simp add: get_ollama_deepseek_reasoning_def Let_def
           split: prod.splits sum.splits option.splits)

lemma official_reasoning_self:
  "snd (snd (get_official_deepseek_reasoning self u resp))
     = self\<lparr>deepseek_messages := deepseek_messages self @ [\<lparr>role = ''user'', content = u\<rparr>]\<rparr>"
  by (simp add: get_official_deepseek_reasoning_def Let_def
           split: response.splits prod.splits sum.splits)

section \<open>Lines that are passed over\<close>

lemma line_piece_content_line [simp]: "line_piece (content_line s) = Inr (Some s)"
  by (simp add: line_piece_def content_line_def message_content_def)

lemma line_piece_simps [simp]:
  "line_piece Blank = Inr None"
  "line_piece BadJson = Inr None"
  "line_piece (BadUtf8 m) = Inl (UnicodeDecodeError m)"
  "line_piece (LoadsRaises e) = Inl e"
  by (simp_all add: line_piece_def)

lemma think_loop_skip:
  "line_piece l = Inr None \<Longrightarrow> think_loop sr v (xs @ l # ys) fin = think_loop sr v (xs @ ys) fin"
proof (induction xs arbitrary: v)
  case Nil
  then show ?case by (simp add: think_line_def split: prod.splits)
next
  case (Cons x xs)
  then show ?case by (simp split: prod.splits sum.splits)
qed

lemma ollama_loop_skip:
  "line_piece l = Inr None \<Longrightarrow> ollama_loop full (xs @ l # ys) fin = ollama_loop full (xs @ ys) fin"
proof (induction xs arbitrary: full)
  case Nil
  then show ?case by (simp add: ollama_line_def split: prod.splits)
next
  case (Cons x xs)
  then show ?case by (simp split: prod.splits sum.splits)
qed

section \<open>Outcomes of the response calls\<close>

lemma openrouter_loop_fault:
  "snd (openrouter_loop full chs (Some e)) = Inl e"
  by (induction chs arbitrary: full) (simp_all add: split_beta)

lemma openrouter_loop_clean:
  "\<exists>full'. snd (openrouter_loop full chs None) = Inr full'"
  by (induction chs arbitrary: full) (simp_all add: split_beta)

lemma ollama_loop_fault:
  "\<exists>e'. snd (ollama_loop full ls (Some e)) = Inl e'"
proof (induction ls arbitrary: full)
  case Nil
  show ?case by simp
next
  case (Cons l ls)
  show ?case
  proof (cases "snd (ollama_line full l)")
    case (Inl e')
    then show ?thesis by (simp add: split_beta)
  next
    case (Inr full')
    then show ?thesis using Cons.IH [of full'] by (simp add: split_beta)
  qed
qed

lemma ollama_loop_text:
  "no_line_raises ls \<Longrightarrow> snd (ollama_loop full ls None) = Inr (full @ stream_text ls)"
proof (induction ls arbitrary: full)
  case Nil
  show ?case by simp
next
  case (Cons l ls)
  from Cons.prems have nr: "no_line_raises ls" and l: "\<not> isl (line_piece l)"
    by (simp_all add: no_line_raises_def)
  from l obtain p where p: "line_piece l = Inr p" by (cases "line_piece l") simp_all
  show ?case
  proof (cases p)
    case None
    with p Cons.IH [OF nr, of full] show ?thesis
      by (simp add: ollama_line_def split_beta)
  next
    case (Some s)
    with p Cons.IH [OF nr, of "full @ s"] show ?thesis
      by (simp add: ollama_line_def split_beta)
  qed
qed

lemma openrouter_loop_text:
  "snd (openrouter_loop full chs None) = Inr (full @ chunks_text chs)"
proof (induction chs arbitrary: full)
  case Nil
  show ?case by (simp add: chunks_text_def)
next
  case (Cons ch chs)
  have "snd (openrouter_chunk full ch) = full @ chunk_piece ch"
    by (simp add: openrouter_chunk_def chunk_piece_def split: list.splits attr.splits)
  with Cons.IH [of "full @ chunk_piece ch"] show ?case
    by (simp add: split_beta chunks_text_def)
qed

lemma ollama_loop_fault_exact:
  "no_line_raises ls \<Longrightarrow> snd (ollama_loop full ls (Some e)) = Inl e"
proof (induction ls arbitrary: full)
  case Nil
  show ?case by simp
next
  case (Cons l ls)
  from Cons.prems have nr: "no_line_raises ls" and l: "\<not> isl (line_piece l)"
    by (simp_all add: no_line_raises_def)
  from l obtain p where p: "line_piece l = Inr p" by (cases "line_piece l") simp_all
  show ?case
  proof (cases p)
    case None
    with p Cons.IH [OF nr, of full] show ?thesis
      by (simp add: ollama_line_def split_beta)
  next
    case (Some s)
    with p Cons.IH [OF nr, of "full @ s"] show ?thesis
      by (simp add: ollama_line_def split_beta)
  qed
qed

text \<open>When rich prints the selector line and the \<open>try\<close> block ends normally, the call
  returns the text and makes its two appends.\<close>

lemma openrouter_response_ok:
  "rp (''[green]'' @ current_model self @ ''[/]'') = None \<Longrightarrow>
   snd (openrouter_loop [] chs fin) = Inr full \<Longrightarrow>
   snd (get_openrouter_response rp self u r (Stream chs fin)) =
     (Inr full,
      self\<lparr> openrouter_messages :=
               openrouter_messages self
                 @ [\<lparr>role = ''user'', content = combined_prompt u r\<rparr>,
                    \<lparr>role = ''assistant'', content = full\<rparr>],
             deepseek_messages :=
               deepseek_messages self @ [\<lparr>role = ''assistant'', content = full\<rparr>] \<rparr>)"
  by (simp add: get_openrouter_response_def get_model_display_name_def Let_def split_beta)

lemma ollama_response_ok:
  "rp (''[green]'' @ current_model self @ ''[/]'') = None \<Longrightarrow>
   snd (ollama_loop [] ls fin) = Inr full \<Longrightarrow>
   snd (get_ollama_response rp self u r (Stream ls fin)) =
     (Inr full,
      self\<lparr> deepseek_messages :=
               deepseek_messages self @ [\<lparr>role = ''assistant'', content = full\<rparr>],
             ollama_messages :=
               ollama_messages self @ [\<lparr>role = ''assistant'', content = full\<rparr>] \<rparr>)"
  by (simp add: get_ollama_response_def get_model_display_name_def Let_def split_beta)

text \<open>When rich prints the selector line and the line of the handler, a fault of the
  request or of the stream gives the fixed text, with nothing appended after the
  request.\<close>

lemma openrouter_response_fault:
  "rp (''[green]'' @ current_model self @ ''[/]'') = None \<Longrightarrow>
   rp (stream_error_markup e) = None \<Longrightarrow>
   resp = ConnectFailed e \<or> resp = Stream chs (Some e) \<Longrightarrow>
   snd (get_openrouter_response rp self u r resp) =
     (Inr stream_error_text,
      self\<lparr> openrouter_messages :=
               openrouter_messages self @ [\<lparr>role = ''user'', content = combined_prompt u r\<rparr>] \<rparr>)"
  using openrouter_loop_fault [of "[]" chs e]
  by (auto simp: get_openrouter_response_def get_model_display_name_def Let_def split_beta)

lemma ollama_response_fault:
  "rp (''[green]'' @ current_model self @ ''[/]'') = None \<Longrightarrow>
   rp (stream_error_markup e) = None \<Longrightarrow>
   resp = ConnectFailed e \<or> resp = Stream ls (Some e) \<and> no_line_raises ls \<Longrightarrow>
   snd (get_ollama_response rp self u r resp) = (Inr stream_error_text, self)"
  using ollama_loop_fault_exact [of ls "[]" e]
  by (auto simp: get_ollama_response_def get_model_display_name_def Let_def split_beta)

text \<open>When rich raises on the selector line, the exception leaves the call: no request
  is made and no assistant message is appended.\<close>

lemma selector_line_raises:
  "rp (''[green]'' @ current_model self @ ''[/]'') = Some e \<Longrightarrow>
   get_ollama_response rp self u r lresp = ([], Inl e, self)"
  "rp (''[green]'' @ current_model self @ ''[/]'') = Some e \<Longrightarrow>
   get_openrouter_response rp self u r hresp =
     ([], Inl e,
      self\<lparr> openrouter_messages :=
               openrouter_messages self @ [\<lparr>role = ''user'', content = combined_prompt u r\<rparr>] \<rparr>)"
  by (simp_all add: get_ollama_response_def get_openrouter_response_def
        get_model_display_name_def Let_def)

text \<open>The hosted reasoning call never returns a value, so a reasoning call that returns
  one went the local way and left the object as it was.\<close>

lemma official_reasoning_raises:
  "isl (fst (snd (get_official_deepseek_reasoning self u hresp)))"
  by (simp add: get_official_deepseek_reasoning_def Let_def
           split: response.splits prod.splits sum.splits)

lemma reasoning_returns_local:
  assumes "fst (snd (get_deepseek_reasoning rp self u t lresp hresp)) = Inr x"
  shows "(\<not> has_official_deepseek self \<or> use_ollama_deepseek self)
         \<and> snd (snd (get_deepseek_reasoning rp self u t lresp hresp)) = self"
proof (cases "\<not> has_official_deepseek self \<or> use_ollama_deepseek self")
  case True
  then show ?thesis
    by (simp add: get_deepseek_reasoning_def ollama_reasoning_self)
next
  case False
  with assms official_reasoning_raises [of self u hresp] show ?thesis
    by (simp add: get_deepseek_reasoning_def)
qed

section \<open>The logs grow by appending\<close>

text \<open>What a call appends to a log does not depend on what the logs held before.\<close>

lemma response_logs_append:
  "deepseek_messages (snd (snd (get_response rp chain u r lresp hresp)))
     = deepseek_messages chain
       @ deepseek_messages (snd (snd (get_response rp
           (chain\<lparr>deepseek_messages := [], openrouter_messages := [], ollama_messages := []\<rparr>)
           u r lresp hresp)))"
  "openrouter_messages (snd (snd (get_response rp chain u r lresp hresp)))
     = openrouter_messages chain
       @ openrouter_messages (snd (snd (get_response rp
           (chain\<lparr>deepseek_messages := [], openrouter_messages := [], ollama_messages := []\<rparr>)
           u r lresp hresp)))"
  "ollama_messages (snd (snd (get_response rp chain u r lresp hresp)))
     = ollama_messages chain
       @ ollama_messages (snd (snd (get_response rp
           (chain\<lparr>deepseek_messages := [], openrouter_messages := [], ollama_messages := []\<rparr>)
           u r lresp hresp)))"
  by (simp_all add: get_response_def get_ollama_response_def get_openrouter_response_def
        get_model_display_name_def Let_def split_beta
        split: sum.splits response.splits option.splits)

lemma reasoning_self:
  "snd (snd (get_deepseek_reasoning rp chain u t lresp hresp))
     = (if \<not> has_official_deepseek chain \<or> use_ollama_deepseek chain then chain
        else chain\<lparr>deepseek_messages :=
                     deepseek_messages chain @ [\<lparr>role = ''user'', content = u\<rparr>]\<rparr>)"
  by (simp add: get_deepseek_reasoning_def official_reasoning_self ollama_reasoning_self split_beta)

lemma think_try_frame:
  "think_try (chain\<lparr>deepseek_messages := d, openrouter_messages := p, ollama_messages := l\<rparr>)
       u lresp
     = think_try chain u lresp"
  by (simp add: think_try_def think_request_def split: response.splits prod.splits)

lemma ollama_reasoning_outcome_frame:
  "fst (snd (get_ollama_deepseek_reasoning rp
       (chain\<lparr>deepseek_messages := d, openrouter_messages := p, ollama_messages := l\<rparr>)
       u t lresp))
     = fst (snd (get_ollama_deepseek_reasoning rp chain u t lresp))"
proof (cases "snd (think_try chain u lresp)")
  case (Inl e)
  then show ?thesis
    by (simp add: get_ollama_deepseek_reasoning_def think_try_frame Let_def split_beta
             split: option.splits)
next
  case (Inr vb)
  then show ?thesis
    by (simp add: get_ollama_deepseek_reasoning_def think_try_frame Let_def split_beta
             split: option.splits)
qed

lemma official_reasoning_outcome_frame:
  "fst (snd (get_official_deepseek_reasoning
       (chain\<lparr>deepseek_messages := d, openrouter_messages := p, ollama_messages := l\<rparr>)
       u hresp))
     = fst (snd (get_official_deepseek_reasoning chain u hresp))"
proof (cases hresp)
  case (ConnectFailed e)
  then show ?thesis by (simp add: get_official_deepseek_reasoning_def Let_def)
next
  case (Stream chs fin)
  show ?thesis
  proof (cases "snd (official_loop (show_reasoning chain) [] [] chs fin)")
    case (Inl e)
    with Stream show ?thesis
      by (simp add: get_official_deepseek_reasoning_def Let_def split_beta)
  next
    case (Inr rf)
    with Stream show ?thesis
      by (simp add: get_official_deepseek_reasoning_def Let_def split_beta)
  qed
qed

lemma reasoning_outcome_frame:
  "fst (snd (get_deepseek_reasoning rp
       (chain\<lparr>deepseek_messages := d, openrouter_messages := p, ollama_messages := l\<rparr>)
       u t lresp hresp))
     = fst (snd (get_deepseek_reasoning rp chain u t lresp hresp))"
  using ollama_reasoning_outcome_frame [where chain = chain and d = d and p = p and l = l]
        official_reasoning_outcome_frame [where chain = chain and d = d and p = p and l = l]
  by (simp add: get_deepseek_reasoning_def split_beta)

lemma run_turn_chain:
  "snd (snd (run_turn chain u env)) =
     (case fst (snd (get_deepseek_reasoning (rich_print env) chain u (think_elapsed env)
                       (ollama_think_answer env) (deepseek_answer env))) of
        Inl e \<Rightarrow>
          snd (snd (get_deepseek_reasoning (rich_print env) chain u (think_elapsed env)
                      (ollama_think_answer env) (deepseek_answer env)))
      | Inr reasoning \<Rightarrow>
          snd (snd (get_response (rich_print env)
                      (snd (snd (get_deepseek_reasoning (rich_print env) chain u
                                   (think_elapsed env) (ollama_think_answer env)
                                   (deepseek_answer env))))
                      u reasoning (ollama_answer env) (openrouter_answer env))))"
  by (simp add: run_turn_def split_beta split: sum.splits)

lemma run_turn_logs_append:
  "deepseek_messages (snd (snd (run_turn chain u env)))
     = deepseek_messages chain
       @ deepseek_messages (snd (snd (run_turn
           (chain\<lparr>deepseek_messages := [], openrouter_messages := [], ollama_messages := []\<rparr>)
           u env)))"
  "openrouter_messages (snd (snd (run_turn chain u env)))
     = openrouter_messages chain
       @ openrouter_messages (snd (snd (run_turn
           (chain\<lparr>deepseek_messages := [], openrouter_messages := [], ollama_messages := []\<rparr>)
           u env)))"
  "ollama_messages (snd (snd (run_turn chain u env)))
     = ollama_messages chain
       @ ollama_messages (snd (snd (run_turn
           (chain\<lparr>deepseek_messages := [], openrouter_messages := [], ollama_messages := []\<rparr>)
           u env)))"
proof -
  let ?clr = "chain\<lparr>deepseek_messages := [], openrouter_messages := [], ollama_messages := []\<rparr>"
  let ?R = "\<lambda>c. get_deepseek_reasoning (rich_print env) c u (think_elapsed env)
                 (ollama_think_answer env) (deepseek_answer env)"
  have outcome: "fst (snd (?R ?clr)) = fst (snd (?R chain))"
    by (rule reasoning_outcome_frame)
  show "deepseek_messages (snd (snd (run_turn chain u env)))
     = deepseek_messages chain @ deepseek_messages (snd (snd (run_turn ?clr u env)))"
  proof (cases "fst (snd (?R chain))")
    case (Inl e)
    with outcome show ?thesis
      by (simp add: run_turn_chain reasoning_self)
  next
    case (Inr reasoning)
    with outcome show ?thesis
      using response_logs_append(1) [of "rich_print env" "snd (snd (?R chain))" u reasoning
               "ollama_answer env" "openrouter_answer env"]
            response_logs_append(1) [of "rich_print env" "snd (snd (?R ?clr))" u reasoning
               "ollama_answer env" "openrouter_answer env"]
      by (simp add: run_turn_chain reasoning_self)
  qed
  show "openrouter_messages (snd (snd (run_turn chain u env)))
     = openrouter_messages chain @ openrouter_messages (snd (snd (run_turn ?clr u env)))"
  proof (cases "fst (snd (?R chain))")
    case (Inl e)
    with outcome show ?thesis
      by (simp add: run_turn_chain reasoning_self)
  next
    case (Inr reasoning)
    with outcome show ?thesis
      using response_logs_append(2) [of "rich_print env" "snd (snd (?R chain))" u reasoning
               "ollama_answer env" "openrouter_answer env"]
            response_logs_append(2) [of "rich_print env" "snd (snd (?R ?clr))" u reasoning
               "ollama_answer env" "openrouter_answer env"]
      by (simp add: run_turn_chain reasoning_self)
  qed
  show "ollama_messages (snd (snd (run_turn chain u env)))
     = ollama_messages chain @ ollama_messages (snd (snd (run_turn ?clr u env)))"
  proof (cases "fst (snd (?R chain))")
    case (Inl e)
    with outcome show ?thesis
      by (simp add: run_turn_chain reasoning_self)
  next
    case (Inr reasoning)
    with outcome show ?thesis
      using response_logs_append(3) [of "rich_print env" "snd (snd (?R chain))" u reasoning
               "ollama_answer env" "openrouter_answer env"]
            response_logs_append(3) [of "rich_print env" "snd (snd (?R ?clr))" u reasoning
               "ollama_answer env" "openrouter_answer env"]
      by (simp add: run_turn_chain reasoning_self)
  qed
qed

lemma main_loop_append:
  "main_loop chain xs = (out, Continue, chain') \<Longrightarrow>
   main_loop chain (xs @ ys) = (out @ fst (main_loop chain' ys), snd (main_loop chain' ys))"
proof (induction xs arbitrary: chain out)
  case Nil
  then show ?case by simp
next
  case (Cons x xs)
  obtain p env where x: "x = (p, env)" by (cases x)
  obtain o1 ctl c1 where step: "main_step chain p env = (o1, ctl, c1)"
    by (cases "main_step chain p env")
  from Cons.prems x step have ctl: "ctl = Continue"
    by (cases ctl) (simp_all split: prod.splits)
  obtain o2 r2 where rest: "main_loop c1 xs = (o2, r2)" by (cases "main_loop c1 xs")
  from Cons.prems x step ctl rest have r2: "r2 = (Continue, chain')" and out: "out = o1 @ o2"
    by simp_all
  from Cons.IH [of c1 o2] rest r2
  have "main_loop c1 (xs @ ys) = (o2 @ fst (main_loop chain' ys), snd (main_loop chain' ys))"
    by simp
  with x step ctl out show ?case by simp
qed

section \<open>Searching a string\<close>





lemma str_find_occurs: "str_find s sub = Some i \<Longrightarrow> take (length sub) (drop i s) = sub"
proof (induction s arbitrary: i)
  case Nil
  then show ?case by (simp split: if_splits)
next
  case (Cons c cs)
  show ?case
  proof (cases "startswith (c # cs) sub")
    case True
    with Cons.prems show ?thesis by (simp add: startswith_def)
  next
    case False
    with Cons.prems obtain i' where "str_find cs sub = Some i'" "i = Suc i'" by auto
    with Cons.IH [of i'] show ?thesis by simp
  qed
qed


lemma str_in_decomp: "str_in sub s \<Longrightarrow> \<exists>pre post. s = pre @ sub @ post"
proof -
  assume "str_in sub s"
  then obtain i where i: "str_find s sub = Some i" by (auto simp: str_in_def)
  have "s = take i s @ take (length sub) (drop i s) @ drop (length sub) (drop i s)"
    by (simp only: append_take_drop_id)
  with str_find_occurs [OF i] show ?thesis by metis
qed

lemma str_in_compose: "str_in sub (pre @ sub @ post)"
proof (induction pre)
  case Nil
  have "startswith (sub @ post) sub" by (simp add: startswith_def)
  then have "str_find (sub @ post) sub = Some 0" by (cases "sub @ post") simp_all
  then show ?case by (simp add: str_in_def)
next
  case (Cons c pre)
  then show ?case by (simp add: str_in_def)
qed

lemma str_in_iff: "str_in sub s \<longleftrightarrow> (\<exists>pre post. s = pre @ sub @ post)"
  using str_in_decomp str_in_compose by blast






lemma slice_to_nat: "slice_to s (int i) = take i s"
  by (simp add: slice_to_def)


section \<open>The tag loop on streams without a closing tag\<close>




lemma stream_text_Cons_Some:
  "line_piece l = Inr (Some s) \<Longrightarrow> stream_text (l # ls) = s @ stream_text ls"
  by simp






section \<open>The elapsed-time label\<close>

lemma time_str_minutes: "60 \<le> t \<Longrightarrow> time_str t = fmt_1f (fdiv t 60) @ '' minutes''"
  by (simp add: time_str_def)

lemma time_str_seconds: "t < 60 \<Longrightarrow> time_str t = fmt_1f t @ '' seconds''"
  by (simp add: time_str_def)

lemma time_str_45: "time_str 45 = ''45.0 seconds''"
  by code_simp

lemma time_str_125: "time_str 125 = ''2.1 minutes''"
  by code_simp

text \<open>The quotient is the rounded one: \<open>63 / 60\<close> is the float just above 1.05, and
  is printed as 1.1; the exact 1.05 would be a tie.\<close>

lemma time_str_63: "time_str 63 = ''1.1 minutes''"
  by code_simp

lemma ollama_reasoning_prints_label:
  "snd (think_try self u resp) = Inr vb \<Longrightarrow>
   Rprint (''\<newline>\<newline>[yellow]Thought for '' @ time_str t @ ''[/]'')
     \<in> set (fst (get_ollama_deepseek_reasoning rp self u t resp))"
  by (simp add: get_ollama_deepseek_reasoning_def split_beta)

section \<open>Claims about the model selector\<close>

text \<open>
  Claim C5. \<open>set_model\<close> coercion: for every selector string, if no OpenRouter key is
  configured and the selector lacks the prefix \<open>ollama:\<close>, then after \<open>set_model\<close> the active
  selector is the local default model and the warning is printed; if the selector has the
  prefix, the active selector is the given one and nothing is printed.
\<close>

theorem set_model_coercion:
  "(\<not> has_openrouter self \<and> \<not> startswith model_name ''ollama:'' \<longrightarrow>
      current_model (snd (set_model self model_name)) = OLLAMA_MODEL \<and>
      fst (set_model self model_name) =
        [Rprint ''\<newline>[red]Warning: OpenRouter API key not found, falling back to Ollama model[/]''])
   \<and> (startswith model_name ''ollama:'' \<longrightarrow>
      current_model (snd (set_model self model_name)) = model_name \<and>
      fst (set_model self model_name) = [])"
  by (simp add: set_model_def)

theorem set_model_coercion_witness:
  "\<not> has_openrouter (ModelChain_init None None)
   \<and> \<not> startswith ''gpt-x'' ''ollama:''
   \<and> current_model (snd (set_model (ModelChain_init None None) ''gpt-x'')) = ''qwen2.5:14b''
   \<and> fst (set_model (ModelChain_init None None) ''gpt-x'') =
        [Rprint ''\<newline>[red]Warning: OpenRouter API key not found, falling back to Ollama model[/]'']
   \<and> startswith ''ollama:modelname'' ''ollama:''
   \<and> current_model (snd (set_model (ModelChain_init None None) ''ollama:modelname''))
        = ''ollama:modelname''
   \<and> fst (set_model (ModelChain_init None None) ''ollama:modelname'') = []"
  using set_model_coercion [of "ModelChain_init None None" "''gpt-x''"]
        set_model_coercion [of "ModelChain_init None None" "''ollama:modelname''"]
  by (simp add: ModelChain_init_def py_bool_def startswith_def OLLAMA_MODEL_def)

section \<open>Claims about the reasoning calls\<close>



section \<open>Claims about lines that fail to decode\<close>

text \<open>
  A line on which \<open>json.loads\<close> raises \<open>JSONDecodeError\<close> is passed over, at every position
  of a local-backend stream: the whole result of the call (events, outcome, object) is
  what it is for the stream without that line, for the reasoning call and for the
  response call.
\<close>

lemma json_decode_error_skipped:
  "get_ollama_deepseek_reasoning rp self u t (Stream (xs @ BadJson # ys) fin)
     = get_ollama_deepseek_reasoning rp self u t (Stream (xs @ ys) fin)
   \<and> get_ollama_response rp self u r (Stream (xs @ BadJson # ys) fin)
     = get_ollama_response rp self u r (Stream (xs @ ys) fin)"
  by (simp add: get_ollama_deepseek_reasoning_def think_try_def get_ollama_response_def
        think_loop_skip ollama_loop_skip cong: option.case_cong)

text \<open>
  Claim C7 (decode-fault isolation) fails on the code for a line that fails to decode
  with an exception other than \<open>JSONDecodeError\<close>: lines 175 and 265 catch that class
  alone, so the exception reaches the handler of the whole stream. With the line of the
  byte \<open>0xff\<close> between two fragments of a response, the call prints the first fragment,
  then the error line, returns the sentinel and appends nothing; without that line it
  returns \<open>X is Y\<close>. With a line of 100000 opening brackets between two fragments of a
  reasoning, the reasoning call returns the sentinel; without it, the reasoning.
\<close>

theorem undecodable_line_aborts_stream:
  "get_ollama_response rich_sample (ModelChain_init None None) ''explain X'' ''why''
       (Stream [content_line ''X is '', byte_ff_line, content_line ''Y''] None)
     = ([Rprint ''[green]qwen2.5:14b[/]'',
         Post ''http://localhost:11434/api/chat'' ''qwen2.5:14b''
           [\<lparr>role = ''system'',
              content = ''You are a helpful assistant that provides clear and concise answers.''\<rparr>,
            \<lparr>role = ''user'', content = ''<question>explain X</question>\<newline>\<newline>why\<newline>\<newline>''\<rparr>],
         Print ''X is '',
         Rprint (''\<newline>[red]Error in streaming response: '' @ quoted ''utf-8'' @ '' codec can''
                   @ [CHR 0x27] @ ''t decode byte 0xff in position 0: invalid start byte[/]'')],
        Inr ''Error occurred while streaming response'',
        ModelChain_init None None)
   \<and> fst (snd (get_ollama_response rich_sample (ModelChain_init None None) ''explain X'' ''why''
                  (Stream [content_line ''X is '', content_line ''Y''] None)))
     = Inr ''X is Y''
   \<and> fst (snd (get_ollama_deepseek_reasoning rich_sample (ModelChain_init None None)
                  ''explain X'' 45
                  (Stream [content_line ''<think>because '', deep_brackets_line,
                           content_line ''Y</think>''] None)))
     = Inr ''Error occurred while streaming response''
   \<and> fst (snd (get_ollama_deepseek_reasoning rich_sample (ModelChain_init None None)
                  ''explain X'' 45
                  (Stream [content_line ''<think>because '', content_line ''Y</think>''] None)))
     = Inr ''<think>because Y</think>''"
  by code_simp

section \<open>Claims about the response calls\<close>

text \<open>
  Claim C6. Dual append: a response call that completes without a fault (rich prints the
  selector line, and the stream ends cleanly, for the local call with no line raising)
  returns the assembled text, the concatenation of the stream's fragments, and appends it
  as one assistant message to \<open>deepseek_messages\<close> and as one assistant message to the log
  of the backend that answered; it changes nothing else of the object. For the hosted
  call the log of the backend, \<open>openrouter_messages\<close>, already holds the user prompt
  appended before the request.
\<close>

theorem dual_append:
  "rp (''[green]'' @ current_model self @ ''[/]'') = None \<longrightarrow>
     snd (get_openrouter_response rp self u r (Stream chs None))
       = (Inr (chunks_text chs),
          self\<lparr> openrouter_messages :=
                   openrouter_messages self
                     @ [\<lparr>role = ''user'', content = combined_prompt u r\<rparr>,
                        \<lparr>role = ''assistant'', content = chunks_text chs\<rparr>],
                 deepseek_messages :=
                   deepseek_messages self
                     @ [\<lparr>role = ''assistant'', content = chunks_text chs\<rparr>] \<rparr>)
     \<and> (no_line_raises ls \<longrightarrow>
          snd (get_ollama_response rp self u r (Stream ls None))
            = (Inr (stream_text ls),
               self\<lparr> deepseek_messages :=
                        deepseek_messages self
                          @ [\<lparr>role = ''assistant'', content = stream_text ls\<rparr>],
                      ollama_messages :=
                        ollama_messages self
                          @ [\<lparr>role = ''assistant'', content = stream_text ls\<rparr>] \<rparr>))"
proof (intro impI conjI)
  assume sel: "rp (''[green]'' @ current_model self @ ''[/]'') = None"
  from openrouter_loop_text [of "[]" chs]
  have "snd (openrouter_loop [] chs None) = Inr (chunks_text chs)" by simp
  from openrouter_response_ok [where rp = rp and self = self, OF sel this]
  show "snd (get_openrouter_response rp self u r (Stream chs None))
       = (Inr (chunks_text chs),
          self\<lparr> openrouter_messages :=
                   openrouter_messages self
                     @ [\<lparr>role = ''user'', content = combined_prompt u r\<rparr>,
                        \<lparr>role = ''assistant'', content = chunks_text chs\<rparr>],
                 deepseek_messages :=
                   deepseek_messages self
                     @ [\<lparr>role = ''assistant'', content = chunks_text chs\<rparr>] \<rparr>)" .
  assume nr: "no_line_raises ls"
  from ollama_loop_text [OF nr, of "[]"]
  have "snd (ollama_loop [] ls None) = Inr (stream_text ls)" by simp
  from ollama_response_ok [where rp = rp and self = self, OF sel this]
  show "snd (get_ollama_response rp self u r (Stream ls None))
            = (Inr (stream_text ls),
               self\<lparr> deepseek_messages :=
                        deepseek_messages self
                          @ [\<lparr>role = ''assistant'', content = stream_text ls\<rparr>],
                      ollama_messages :=
                        ollama_messages self
                          @ [\<lparr>role = ''assistant'', content = stream_text ls\<rparr>] \<rparr>)" .
qed

theorem dual_append_witness:
  "rich_sample (''[green]'' @ current_model (ModelChain_init None (Some ''key'')) @ ''[/]'') = None
   \<and> fst (snd (get_openrouter_response rich_sample (ModelChain_init None (Some ''key''))
              ''explain X'' ''<think>because Y</think>''
              (Stream [content_chunk ''X is '', content_chunk ''Y''] None))) = Inr ''X is Y''
   \<and> deepseek_messages (snd (snd (get_openrouter_response rich_sample
              (ModelChain_init None (Some ''key'')) ''explain X'' ''<think>because Y</think>''
              (Stream [content_chunk ''X is '', content_chunk ''Y''] None))))
        = [\<lparr>role = ''assistant'', content = ''X is Y''\<rparr>]
   \<and> openrouter_messages (snd (snd (get_openrouter_response rich_sample
              (ModelChain_init None (Some ''key'')) ''explain X'' ''<think>because Y</think>''
              (Stream [content_chunk ''X is '', content_chunk ''Y''] None))))
        = [\<lparr>role = ''user'',
            content = ''<question>explain X</question>\<newline>\<newline><think>because Y</think>\<newline>\<newline>''\<rparr>,
           \<lparr>role = ''assistant'', content = ''X is Y''\<rparr>]
   \<and> rich_sample (''[green]'' @ current_model (ModelChain_init None None) @ ''[/]'') = None
   \<and> no_line_raises [content_line ''X is '', Blank, content_line ''Y'']
   \<and> fst (snd (get_ollama_response rich_sample (ModelChain_init None None) ''explain X''
              ''<think>because Y</think>''
              (Stream [content_line ''X is '', Blank, content_line ''Y''] None))) = Inr ''X is Y''
   \<and> deepseek_messages (snd (snd (get_ollama_response rich_sample (ModelChain_init None None)
              ''explain X'' ''<think>because Y</think>''
              (Stream [content_line ''X is '', Blank, content_line ''Y''] None))))
        = [\<lparr>role = ''assistant'', content = ''X is Y''\<rparr>]
   \<and> ollama_messages (snd (snd (get_ollama_response rich_sample (ModelChain_init None None)
              ''explain X'' ''<think>because Y</think>''
              (Stream [content_line ''X is '', Blank, content_line ''Y''] None))))
        = [\<lparr>role = ''assistant'', content = ''X is Y''\<rparr>]"
proof -
  have s1: "rich_sample (''[green]'' @ current_model (ModelChain_init None (Some ''key'')) @ ''[/]'')
              = None"
    by code_simp
  have s2: "rich_sample (''[green]'' @ current_model (ModelChain_init None None) @ ''[/]'') = None"
    by code_simp
  have nr: "no_line_raises [content_line ''X is '', Blank, content_line ''Y'']"
    by (simp add: no_line_raises_def)
  have t: "stream_text [content_line ''X is '', Blank, content_line ''Y''] = ''X is Y''"
    by simp
  have c: "chunks_text [content_chunk ''X is '', content_chunk ''Y''] = ''X is Y''"
    by (simp add: chunks_text_def chunk_piece_def content_chunk_def)
  have e: "deepseek_messages (ModelChain_init None (Some ''key'')) = []"
    "openrouter_messages (ModelChain_init None (Some ''key'')) = []"
    "deepseek_messages (ModelChain_init None None) = []"
    "ollama_messages (ModelChain_init None None) = []"
    by (simp_all add: ModelChain_init_def)
  have p: "combined_prompt ''explain X'' ''<think>because Y</think>''
      = ''<question>explain X</question>\<newline>\<newline><think>because Y</think>\<newline>\<newline>''"
    by (simp add: combined_prompt_def)
  from dual_append [where rp = rich_sample and self = "ModelChain_init None (Some ''key'')"
         and u = "''explain X''" and r = "''<think>because Y</think>''"
         and chs = "[content_chunk ''X is '', content_chunk ''Y'']"] s1
  have "snd (get_openrouter_response rich_sample (ModelChain_init None (Some ''key''))
              ''explain X'' ''<think>because Y</think>''
              (Stream [content_chunk ''X is '', content_chunk ''Y''] None))
       = (Inr (chunks_text [content_chunk ''X is '', content_chunk ''Y'']),
          (ModelChain_init None (Some ''key''))
            \<lparr> openrouter_messages :=
                 openrouter_messages (ModelChain_init None (Some ''key''))
                   @ [\<lparr>role = ''user'',
                        content = combined_prompt ''explain X'' ''<think>because Y</think>''\<rparr>,
                      \<lparr>role = ''assistant'',
                        content = chunks_text [content_chunk ''X is '', content_chunk ''Y'']\<rparr>],
               deepseek_messages :=
                 deepseek_messages (ModelChain_init None (Some ''key''))
                   @ [\<lparr>role = ''assistant'',
                        content = chunks_text [content_chunk ''X is '', content_chunk ''Y'']\<rparr>] \<rparr>)"
    by blast
  with c e p
  have hosted: "fst (snd (get_openrouter_response rich_sample (ModelChain_init None (Some ''key''))
              ''explain X'' ''<think>because Y</think>''
              (Stream [content_chunk ''X is '', content_chunk ''Y''] None))) = Inr ''X is Y''
   \<and> deepseek_messages (snd (snd (get_openrouter_response rich_sample
              (ModelChain_init None (Some ''key'')) ''explain X'' ''<think>because Y</think>''
              (Stream [content_chunk ''X is '', content_chunk ''Y''] None))))
        = [\<lparr>role = ''assistant'', content = ''X is Y''\<rparr>]
   \<and> openrouter_messages (snd (snd (get_openrouter_response rich_sample
              (ModelChain_init None (Some ''key'')) ''explain X'' ''<think>because Y</think>''
              (Stream [content_chunk ''X is '', content_chunk ''Y''] None))))
        = [\<lparr>role = ''user'',
            content = ''<question>explain X</question>\<newline>\<newline><think>because Y</think>\<newline>\<newline>''\<rparr>,
           \<lparr>role = ''assistant'', content = ''X is Y''\<rparr>]"
    by simp
  from dual_append [where rp = rich_sample and self = "ModelChain_init None None"
         and u = "''explain X''" and r = "''<think>because Y</think>''"
         and ls = "[content_line ''X is '', Blank, content_line ''Y'']"] s2 nr
  have "snd (get_ollama_response rich_sample (ModelChain_init None None) ''explain X''
              ''<think>because Y</think>''
              (Stream [content_line ''X is '', Blank, content_line ''Y''] None))
       = (Inr (stream_text [content_line ''X is '', Blank, content_line ''Y'']),
          (ModelChain_init None None)
            \<lparr> deepseek_messages :=
                 deepseek_messages (ModelChain_init None None)
                   @ [\<lparr>role = ''assistant'',
                        content = stream_text [content_line ''X is '', Blank, content_line ''Y'']\<rparr>],
               ollama_messages :=
                 ollama_messages (ModelChain_init None None)
                   @ [\<lparr>role = ''assistant'',
                        content = stream_text [content_line ''X is '', Blank, content_line ''Y'']\<rparr>] \<rparr>)"
    by blast
  with t e
  have local: "fst (snd (get_ollama_response rich_sample (ModelChain_init None None) ''explain X''
              ''<think>because Y</think>''
              (Stream [content_line ''X is '', Blank, content_line ''Y''] None))) = Inr ''X is Y''
   \<and> deepseek_messages (snd (snd (get_ollama_response rich_sample (ModelChain_init None None)
              ''explain X'' ''<think>because Y</think>''
              (Stream [content_line ''X is '', Blank, content_line ''Y''] None))))
        = [\<lparr>role = ''assistant'', content = ''X is Y''\<rparr>]
   \<and> ollama_messages (snd (snd (get_ollama_response rich_sample (ModelChain_init None None)
              ''explain X'' ''<think>because Y</think>''
              (Stream [content_line ''X is '', Blank, content_line ''Y''] None))))
        = [\<lparr>role = ''assistant'', content = ''X is Y''\<rparr>]"
    by simp
  from s1 s2 nr hosted local show ?thesis by blast
qed

text \<open>
  The hypothesis on the selector line is needed. In a session without keys the command
  \<open>model ollama:[/]\<close> sets the selector \<open>ollama:[/]\<close>; in the next turn rich raises
  \<open>MarkupError\<close> on the selector line (line 243) before the request is made: the
  exception leaves the call and the loop of \<open>main\<close>, and no log has gained a message.
\<close>

lemma selector_markup_error:
  "current_model (snd (snd (main_step (ModelChain_init None None) (Input ''model ollama:[/]'')
                              scenario_env))) = ''ollama:[/]''
   \<and> fst (snd (main_loop (ModelChain_init None None)
                  [(Input ''model ollama:[/]'', scenario_env), (Input ''explain X'', scenario_env)]))
     = Raise (MarkupError (''closing tag '' @ quoted ''[/]''
                             @ '' at position 17 has nothing to close''))
   \<and> deepseek_messages (snd (snd (main_loop (ModelChain_init None None)
                  [(Input ''model ollama:[/]'', scenario_env), (Input ''explain X'', scenario_env)])))
     = []
   \<and> ollama_messages (snd (snd (main_loop (ModelChain_init None None)
                  [(Input ''model ollama:[/]'', scenario_env), (Input ''explain X'', scenario_env)])))
     = []"
  by code_simp

text \<open>
  Claim C3, as the code has it. Let rich print the selector line and the line of the
  handler (lines 223 and 269). When the request of a response call fails, or its stream
  breaks while it is read, the call returns the text
  \<open>Error occurred while streaming response\<close> and raises nothing. The text is not appended
  to any log: \<open>get_ollama_response\<close> leaves the object as it was, and
  \<open>get_openrouter_response\<close> leaves it with the user prompt it had appended to
  \<open>openrouter_messages\<close> before the request and nothing else. A turn whose reasoning call
  has returned then ends with the loop going on and with the object as the response call
  left it.
\<close>

theorem response_fault_sentinel:
  "rp (''[green]'' @ current_model self @ ''[/]'') = None \<and> rp (stream_error_markup e) = None \<longrightarrow>
     (resp = ConnectFailed e \<or> resp = Stream chs (Some e) \<longrightarrow>
        snd (get_openrouter_response rp self u r resp)
          = (Inr ''Error occurred while streaming response'',
             self\<lparr>openrouter_messages :=
                     openrouter_messages self @ [\<lparr>role = ''user'', content = combined_prompt u r\<rparr>]\<rparr>))
     \<and> (lresp = ConnectFailed e \<or> lresp = Stream ls (Some e) \<and> no_line_raises ls \<longrightarrow>
        snd (get_ollama_response rp self u r lresp)
          = (Inr ''Error occurred while streaming response'', self))
     \<and> (rich_print env = rp
          \<and> fst (snd (get_deepseek_reasoning rp self u (think_elapsed env)
                         (ollama_think_answer env) (deepseek_answer env))) = Inr r \<longrightarrow>
        ((\<not> has_openrouter self \<or> startswith (current_model self) ''ollama:'')
           \<and> (ollama_answer env = ConnectFailed e
                \<or> ollama_answer env = Stream ls (Some e) \<and> no_line_raises ls) \<longrightarrow>
           snd (run_turn self u env) = (Continue, self))
        \<and> (has_openrouter self \<and> \<not> startswith (current_model self) ''ollama:''
           \<and> (openrouter_answer env = ConnectFailed e
                \<or> openrouter_answer env = Stream chs (Some e)) \<longrightarrow>
           snd (run_turn self u env)
             = (Continue,
                self\<lparr>openrouter_messages :=
                        openrouter_messages self
                          @ [\<lparr>role = ''user'', content = combined_prompt u r\<rparr>]\<rparr>)))"
proof (intro impI conjI)
  assume "rp (''[green]'' @ current_model self @ ''[/]'') = None \<and> rp (stream_error_markup e) = None"
  then have sel: "rp (''[green]'' @ current_model self @ ''[/]'') = None"
    and err: "rp (stream_error_markup e) = None"
    by simp_all
  have hosted: "snd (get_openrouter_response rp self u r x)
          = (Inr ''Error occurred while streaming response'',
             self\<lparr>openrouter_messages :=
                     openrouter_messages self @ [\<lparr>role = ''user'', content = combined_prompt u r\<rparr>]\<rparr>)"
    if "x = ConnectFailed e \<or> x = Stream chs (Some e)" for x
    using openrouter_response_fault [where rp = rp and self = self and e = e, OF sel err that]
    by (simp add: stream_error_text_def)
  have local: "snd (get_ollama_response rp self u r x)
          = (Inr ''Error occurred while streaming response'', self)"
    if "x = ConnectFailed e \<or> x = Stream ls (Some e) \<and> no_line_raises ls" for x
    using ollama_response_fault [where rp = rp and self = self and e = e, OF sel err that]
    by (simp add: stream_error_text_def)
  {
    assume "resp = ConnectFailed e \<or> resp = Stream chs (Some e)"
    then show "snd (get_openrouter_response rp self u r resp)
          = (Inr ''Error occurred while streaming response'',
             self\<lparr>openrouter_messages :=
                     openrouter_messages self @ [\<lparr>role = ''user'', content = combined_prompt u r\<rparr>]\<rparr>)"
      by (rule hosted)
  }
  {
    assume "lresp = ConnectFailed e \<or> lresp = Stream ls (Some e) \<and> no_line_raises ls"
    then show "snd (get_ollama_response rp self u r lresp)
          = (Inr ''Error occurred while streaming response'', self)"
      by (rule local)
  }
  assume "rich_print env = rp
          \<and> fst (snd (get_deepseek_reasoning rp self u (think_elapsed env)
                         (ollama_think_answer env) (deepseek_answer env))) = Inr r"
  then have env: "rich_print env = rp"
    and ret: "fst (snd (get_deepseek_reasoning rp self u (think_elapsed env)
                         (ollama_think_answer env) (deepseek_answer env))) = Inr r"
    by simp_all
  from reasoning_returns_local [OF ret]
  have same: "snd (snd (get_deepseek_reasoning rp self u (think_elapsed env)
                         (ollama_think_answer env) (deepseek_answer env))) = self"
    by simp
  {
    assume "(\<not> has_openrouter self \<or> startswith (current_model self) ''ollama:'')
           \<and> (ollama_answer env = ConnectFailed e
                \<or> ollama_answer env = Stream ls (Some e) \<and> no_line_raises ls)"
    then have sw: "\<not> has_openrouter self \<or> startswith (current_model self) ''ollama:''"
      and f: "ollama_answer env = ConnectFailed e
                \<or> ollama_answer env = Stream ls (Some e) \<and> no_line_raises ls"
      by simp_all
    from sw local [OF f] env ret same
    show "snd (run_turn self u env) = (Continue, self)"
      by (simp add: run_turn_def get_response_def split_beta prod_eq_iff)
  }
  {
    assume "has_openrouter self \<and> \<not> startswith (current_model self) ''ollama:''
           \<and> (openrouter_answer env = ConnectFailed e
                \<or> openrouter_answer env = Stream chs (Some e))"
    then have sw: "has_openrouter self \<and> \<not> startswith (current_model self) ''ollama:''"
      and f: "openrouter_answer env = ConnectFailed e
                \<or> openrouter_answer env = Stream chs (Some e)"
      by simp_all
    from sw hosted [OF f] env ret same
    show "snd (run_turn self u env)
             = (Continue,
                self\<lparr>openrouter_messages :=
                        openrouter_messages self
                          @ [\<lparr>role = ''user'', content = combined_prompt u r\<rparr>]\<rparr>)"
      by (simp add: run_turn_def get_response_def split_beta prod_eq_iff)
  }
qed

theorem response_fault_sentinel_witness:
  "rich_sample (''[green]'' @ current_model (ModelChain_init None (Some ''key'')) @ ''[/]'') = None
   \<and> rich_sample (stream_error_markup (TransportError ''Connection reset'')) = None
   \<and> snd (get_openrouter_response rich_sample (ModelChain_init None (Some ''key''))
            ''explain X'' ''why''
            (Stream [content_chunk ''X is ''] (Some (TransportError ''Connection reset''))))
     = (Inr ''Error occurred while streaming response'',
        (ModelChain_init None (Some ''key''))
          \<lparr>openrouter_messages :=
             [\<lparr>role = ''user'', content = ''<question>explain X</question>\<newline>\<newline>why\<newline>\<newline>''\<rparr>]\<rparr>)
   \<and> rich_sample (''[green]'' @ current_model (ModelChain_init None None) @ ''[/]'') = None
   \<and> rich_sample (stream_error_markup (TransportError ''Connection refused'')) = None
   \<and> no_line_raises [content_line ''X is '']
   \<and> snd (get_ollama_response rich_sample (ModelChain_init None None) ''explain X'' ''why''
            (Stream [content_line ''X is ''] (Some (TransportError ''Connection refused''))))
     = (Inr ''Error occurred while streaming response'', ModelChain_init None None)
   \<and> fst (snd (get_deepseek_reasoning rich_sample (ModelChain_init None None) ''explain X''
                  (think_elapsed refused_env) (ollama_think_answer refused_env)
                  (deepseek_answer refused_env)))
     = Inr ''<think>because Y</think>''
   \<and> snd (run_turn (ModelChain_init None None) ''explain X'' refused_env)
     = (Continue, ModelChain_init None None)
   \<and> snd (run_turn (ModelChain_init None (Some ''key'')) ''explain X'' refused_env)
     = (Continue,
        (ModelChain_init None (Some ''key''))
          \<lparr>openrouter_messages :=
             [\<lparr>role = ''user'',
                content = ''<question>explain X</question>\<newline>\<newline><think>because Y</think>\<newline>\<newline>''\<rparr>]\<rparr>)"
proof -
  have s1: "rich_sample (''[green]'' @ current_model (ModelChain_init None (Some ''key'')) @ ''[/]'')
              = None"
    by code_simp
  have s2: "rich_sample (''[green]'' @ current_model (ModelChain_init None None) @ ''[/]'') = None"
    by code_simp
  have e1: "rich_sample (stream_error_markup (TransportError ''Connection reset'')) = None"
    by code_simp
  have e2: "rich_sample (stream_error_markup (TransportError ''Connection refused'')) = None"
    by code_simp
  have nr: "no_line_raises [content_line ''X is '']"
    by (simp add: no_line_raises_def)
  have ret1: "fst (snd (get_deepseek_reasoning rich_sample (ModelChain_init None None) ''explain X''
                  (think_elapsed refused_env) (ollama_think_answer refused_env)
                  (deepseek_answer refused_env)))
     = Inr ''<think>because Y</think>''"
    by code_simp
  have ret2: "fst (snd (get_deepseek_reasoning rich_sample (ModelChain_init None (Some ''key''))
                  ''explain X'' (think_elapsed refused_env) (ollama_think_answer refused_env)
                  (deepseek_answer refused_env)))
     = Inr ''<think>because Y</think>''"
    by code_simp
  have env: "rich_print refused_env = rich_sample"
    "ollama_answer refused_env = ConnectFailed (TransportError ''Connection refused'')"
    "openrouter_answer refused_env = ConnectFailed (TransportError ''Connection refused'')"
    by (simp_all add: refused_env_def)
  have sw1: "\<not> has_openrouter (ModelChain_init None None)"
    by (simp add: ModelChain_init_def py_bool_def)
  have sw2: "has_openrouter (ModelChain_init None (Some ''key''))
             \<and> \<not> startswith (current_model (ModelChain_init None (Some ''key''))) ''ollama:''"
    by code_simp
  have logs: "openrouter_messages (ModelChain_init None (Some ''key'')) = []"
    by (simp add: ModelChain_init_def)
  have p1: "combined_prompt ''explain X'' ''why''
      = ''<question>explain X</question>\<newline>\<newline>why\<newline>\<newline>''"
    by (simp add: combined_prompt_def)
  have p2: "combined_prompt ''explain X'' ''<think>because Y</think>''
      = ''<question>explain X</question>\<newline>\<newline><think>because Y</think>\<newline>\<newline>''"
    by (simp add: combined_prompt_def)
  have hosted:
    "snd (get_openrouter_response rich_sample (ModelChain_init None (Some ''key''))
            ''explain X'' ''why''
            (Stream [content_chunk ''X is ''] (Some (TransportError ''Connection reset''))))
     = (Inr ''Error occurred while streaming response'',
        (ModelChain_init None (Some ''key''))
          \<lparr>openrouter_messages :=
             openrouter_messages (ModelChain_init None (Some ''key''))
               @ [\<lparr>role = ''user'', content = combined_prompt ''explain X'' ''why''\<rparr>]\<rparr>)"
    using s1 e1 response_fault_sentinel
      [where rp = rich_sample and self = "ModelChain_init None (Some ''key'')"
         and e = "TransportError ''Connection reset''"
         and resp = "Stream [content_chunk ''X is ''] (Some (TransportError ''Connection reset''))"
         and chs = "[content_chunk ''X is '']" and u = "''explain X''" and r = "''why''"]
    by blast
  have local:
    "snd (get_ollama_response rich_sample (ModelChain_init None None) ''explain X'' ''why''
            (Stream [content_line ''X is ''] (Some (TransportError ''Connection refused''))))
     = (Inr ''Error occurred while streaming response'', ModelChain_init None None)"
    using s2 e2 nr response_fault_sentinel
      [where rp = rich_sample and self = "ModelChain_init None None"
         and e = "TransportError ''Connection refused''"
         and lresp = "Stream [content_line ''X is ''] (Some (TransportError ''Connection refused''))"
         and ls = "[content_line ''X is '']" and u = "''explain X''" and r = "''why''"]
    by blast
  have turn1: "snd (run_turn (ModelChain_init None None) ''explain X'' refused_env)
     = (Continue, ModelChain_init None None)"
    using s2 e2 env ret1 sw1 response_fault_sentinel
      [where rp = rich_sample and self = "ModelChain_init None None"
         and e = "TransportError ''Connection refused''" and env = refused_env
         and u = "''explain X''" and r = "''<think>because Y</think>''"]
    by blast
  have turn2: "snd (run_turn (ModelChain_init None (Some ''key'')) ''explain X'' refused_env)
     = (Continue,
        (ModelChain_init None (Some ''key''))
          \<lparr>openrouter_messages :=
             openrouter_messages (ModelChain_init None (Some ''key''))
               @ [\<lparr>role = ''user'',
                    content = combined_prompt ''explain X'' ''<think>because Y</think>''\<rparr>]\<rparr>)"
    using s1 e2 env ret2 sw2 response_fault_sentinel
      [where rp = rich_sample and self = "ModelChain_init None (Some ''key'')"
         and e = "TransportError ''Connection refused''" and env = refused_env
         and u = "''explain X''" and r = "''<think>because Y</think>''"]
    by blast
  from s1 s2 e1 e2 nr ret1 hosted local turn1 turn2 logs p1 p2 show ?thesis
    by simp
qed

text \<open>
  Claim C3 as stated asks for the sentinel in the message history. In a session without
  keys, a turn whose response backend refuses the connection ends with the loop going on
  and the three logs empty: the response call has returned the sentinel and left the
  object unchanged.
\<close>

theorem response_fault_not_logged:
  "fst (snd (run_turn (ModelChain_init None None) ''explain X'' refused_env)) = Continue
   \<and> deepseek_messages (snd (snd (run_turn (ModelChain_init None None) ''explain X'' refused_env))) = []
   \<and> openrouter_messages (snd (snd (run_turn (ModelChain_init None None) ''explain X'' refused_env))) = []
   \<and> ollama_messages (snd (snd (run_turn (ModelChain_init None None) ''explain X'' refused_env))) = []
   \<and> snd (get_ollama_response rich_sample (ModelChain_init None None) ''explain X''
            ''<think>because Y</think>'' (ConnectFailed (TransportError ''Connection refused'')))
      = (Inr ''Error occurred while streaming response'', ModelChain_init None None)"
  by code_simp

text \<open>
  The hypothesis on the line of the handler is needed. When the message of the fault
  holds a closing tag that matches no open tag, rich raises \<open>MarkupError\<close> inside the
  handler (line 269): that exception leaves the call, and the turn ends the loop with it.
\<close>

lemma error_line_markup_error:
  "get_ollama_response rich_sample (ModelChain_init None None) ''explain X''
       ''<think>because Y</think>'' (ConnectFailed (TransportError ''bad [/x] gateway''))
     = ([Rprint ''[green]qwen2.5:14b[/]'',
         Post ''http://localhost:11434/api/chat'' ''qwen2.5:14b''
           [\<lparr>role = ''system'',
              content = ''You are a helpful assistant that provides clear and concise answers.''\<rparr>,
            \<lparr>role = ''user'',
              content = ''<question>explain X</question>\<newline>\<newline><think>because Y</think>\<newline>\<newline>''\<rparr>]],
        Inl (MarkupError (''closing tag '' @ quoted ''[/x]'' @ '' at position 39 doesn''
                            @ [CHR 0x27] @ ''t match any open tag'')),
        ModelChain_init None None)
   \<and> fst (snd (run_turn (ModelChain_init None None) ''explain X''
                  (refused_env\<lparr>ollama_answer := ConnectFailed (TransportError ''bad [/x] gateway'')\<rparr>)))
     = Raise (MarkupError (''closing tag '' @ quoted ''[/x]'' @ '' at position 39 doesn''
                             @ [CHR 0x27] @ ''t match any open tag''))"
  by code_simp

section \<open>Claims about the log of the reasoning backend\<close>

text \<open>
  What the reasoning call does to the object. On the hosted path (a DeepSeek key is
  configured and the local override is off) it appends the user's input as a user
  message to \<open>deepseek_messages\<close> (line 82) and changes nothing else, whatever the call
  does after the append. On the local path (no key, or the override) it leaves the
  object, and so every log, as it was.
\<close>

lemma reasoning_call_log:
  "(has_official_deepseek self \<and> \<not> use_ollama_deepseek self \<longrightarrow>
      snd (snd (get_deepseek_reasoning rp self u t lresp hosted))
        = self\<lparr>deepseek_messages := deepseek_messages self @ [\<lparr>role = ''user'', content = u\<rparr>]\<rparr>)
   \<and> (\<not> has_official_deepseek self \<or> use_ollama_deepseek self \<longrightarrow>
      snd (snd (get_deepseek_reasoning rp self u t lresp hosted)) = self)"
  by (simp add: get_deepseek_reasoning_def official_reasoning_self ollama_reasoning_self)

text \<open>
  Claim C2 (the user's input is appended to the reasoning-backend log on both paths)
  fails on the code on the local path. In the spec's own scenario (no keys; the local
  reasoning is \<open><think>because Y</think>\<close>, the local response \<open>X is Y\<close>) the user's text is
  sent in the request of the reasoning call and appended to no log, while the response
  call appends its assistant message to \<open>deepseek_messages\<close> all the same: the turn ends
  with that log holding the assistant message alone. With a DeepSeek key the reasoning
  call of the same turn does append the user message.
\<close>

theorem local_turn_log_without_user_message:
  "fst (snd (run_turn (ModelChain_init None None) ''explain X'' scenario_env)) = Continue
   \<and> Post ''http://localhost:11434/api/chat'' ''deepseek-r1:14b''
        [\<lparr>role = ''system'',
           content = ''You are a helpful assistant that thinks step by step. Format your response as: <think>your step by step reasoning</think> and stop immediately after closing the think tag.''\<rparr>,
         \<lparr>role = ''user'', content = ''Analyze this request step by step:\<newline>explain X''\<rparr>]
       \<in> set (fst (run_turn (ModelChain_init None None) ''explain X'' scenario_env))
   \<and> deepseek_messages (snd (snd (run_turn (ModelChain_init None None) ''explain X'' scenario_env)))
       = [\<lparr>role = ''assistant'', content = ''X is Y''\<rparr>]
   \<and> ollama_messages (snd (snd (run_turn (ModelChain_init None None) ''explain X'' scenario_env)))
       = [\<lparr>role = ''assistant'', content = ''X is Y''\<rparr>]
   \<and> openrouter_messages (snd (snd (run_turn (ModelChain_init None None) ''explain X'' scenario_env)))
       = []
   \<and> deepseek_messages (snd (snd (run_turn (ModelChain_init (Some ''key'') None) ''explain X''
                                      scenario_env)))
       = [\<lparr>role = ''user'', content = ''explain X''\<rparr>]"
  by code_simp

section \<open>Claims about the command loop\<close>

text \<open>
  Claim C9. Clear-history: in any state of the session, the input \<open>clear\<close> (in any case,
  with white space around it) prints its notice, goes on with the loop and leaves the
  object with its three logs empty and every other field as it was; so it does after any
  passes of the loop that left it running. The logs after a turn are the logs before it
  followed by what the same turn leaves in the logs of the cleared object: after a clear,
  a turn's logs hold what that turn appends and nothing else.
\<close>

theorem clear_history:
  "(str_lower (str_strip typed) = ''clear'' \<longrightarrow>
      main_step chain (Input typed) env
        = ([Rprint ''\<newline>[magenta]Chat history cleared![/]\<newline>''], Continue,
           chain\<lparr>deepseek_messages := [], openrouter_messages := [], ollama_messages := []\<rparr>))
   \<and> (str_lower (str_strip typed) = ''clear'' \<and> fst (snd (main_loop chain0 steps)) = Continue \<longrightarrow>
      snd (main_loop chain0 (steps @ [(Input typed, env)]))
        = (Continue,
           (snd (snd (main_loop chain0 steps)))
             \<lparr>deepseek_messages := [], openrouter_messages := [], ollama_messages := []\<rparr>))
   \<and> deepseek_messages (snd (snd (run_turn chain u env)))
        = deepseek_messages chain
          @ deepseek_messages (snd (snd (run_turn
              (chain\<lparr>deepseek_messages := [], openrouter_messages := [], ollama_messages := []\<rparr>)
              u env)))
   \<and> openrouter_messages (snd (snd (run_turn chain u env)))
        = openrouter_messages chain
          @ openrouter_messages (snd (snd (run_turn
              (chain\<lparr>deepseek_messages := [], openrouter_messages := [], ollama_messages := []\<rparr>)
              u env)))
   \<and> ollama_messages (snd (snd (run_turn chain u env)))
        = ollama_messages chain
          @ ollama_messages (snd (snd (run_turn
              (chain\<lparr>deepseek_messages := [], openrouter_messages := [], ollama_messages := []\<rparr>)
              u env)))"
proof -
  have step: "str_lower (str_strip typed) = ''clear'' \<Longrightarrow>
      main_step chain (Input typed) env
        = ([Rprint ''\<newline>[magenta]Chat history cleared![/]\<newline>''], Continue,
           chain\<lparr>deepseek_messages := [], openrouter_messages := [], ollama_messages := []\<rparr>)"
    for chain
    by (simp add: main_step_def Let_def)
  have loop: "snd (main_loop chain0 (steps @ [(Input typed, env)]))
        = (Continue,
           (snd (snd (main_loop chain0 steps)))
             \<lparr>deepseek_messages := [], openrouter_messages := [], ollama_messages := []\<rparr>)"
    if c: "str_lower (str_strip typed) = ''clear''" and r: "fst (snd (main_loop chain0 steps)) = Continue"
  proof -
    from r have "main_loop chain0 steps
        = (fst (main_loop chain0 steps), Continue, snd (snd (main_loop chain0 steps)))"
      by (simp add: prod_eq_iff)
    from main_loop_append [OF this, of "[(Input typed, env)]"] step [OF c]
    show ?thesis by simp
  qed
  from step loop run_turn_logs_append [of chain u env] show ?thesis by blast
qed

theorem clear_history_witness:
  "str_lower (str_strip '' Clear '') = ''clear''
   \<and> fst (snd (main_loop (ModelChain_init None None) [(Input ''explain X'', scenario_env)])) = Continue
   \<and> deepseek_messages (snd (snd (main_loop (ModelChain_init None None)
          [(Input ''explain X'', scenario_env)])))
        = [\<lparr>role = ''assistant'', content = ''X is Y''\<rparr>]
   \<and> snd (main_loop (ModelChain_init None None)
          ([(Input ''explain X'', scenario_env)] @ [(Input '' Clear '', scenario_env)]))
        = (Continue, ModelChain_init None None)
   \<and> deepseek_messages (snd (snd (main_loop (ModelChain_init None None)
          [(Input ''explain X'', scenario_env), (Input '' Clear '', scenario_env),
           (Input ''explain Z'', scenario_env)])))
        = [\<lparr>role = ''assistant'', content = ''X is Y''\<rparr>]"
proof -
  have c: "str_lower (str_strip '' Clear '') = ''clear''"
    by code_simp
  have r: "fst (snd (main_loop (ModelChain_init None None) [(Input ''explain X'', scenario_env)]))
             = Continue"
    by code_simp
  have before: "snd (snd (main_loop (ModelChain_init None None) [(Input ''explain X'', scenario_env)]))
      = (ModelChain_init None None)
          \<lparr>deepseek_messages := [\<lparr>role = ''assistant'', content = ''X is Y''\<rparr>],
            ollama_messages := [\<lparr>role = ''assistant'', content = ''X is Y''\<rparr>]\<rparr>"
    by code_simp
  have after: "deepseek_messages (snd (snd (main_loop (ModelChain_init None None)
          [(Input ''explain X'', scenario_env), (Input '' Clear '', scenario_env),
           (Input ''explain Z'', scenario_env)])))
        = [\<lparr>role = ''assistant'', content = ''X is Y''\<rparr>]"
    by code_simp
  have cleared: "snd (main_loop (ModelChain_init None None)
          ([(Input ''explain X'', scenario_env)] @ [(Input '' Clear '', scenario_env)]))
        = (Continue,
           (snd (snd (main_loop (ModelChain_init None None) [(Input ''explain X'', scenario_env)])))
             \<lparr>deepseek_messages := [], openrouter_messages := [], ollama_messages := []\<rparr>)"
    using c r clear_history [where typed = "'' Clear ''" and ?chain0.0 = "ModelChain_init None None"
                 and steps = "[(Input ''explain X'', scenario_env)]" and env = scenario_env]
    by blast
  have init: "(ModelChain_init None None)
          \<lparr>deepseek_messages := [\<lparr>role = ''assistant'', content = ''X is Y''\<rparr>],
            ollama_messages := [\<lparr>role = ''assistant'', content = ''X is Y''\<rparr>]\<rparr>
          \<lparr>deepseek_messages := [], openrouter_messages := [], ollama_messages := []\<rparr>
        = ModelChain_init None None"
    by (simp add: ModelChain_init_def)
  from c r before after cleared init show ?thesis by simp
qed

section \<open>Claims about the tag loop\<close>



text \<open>
  Claim C1 (boundary invariance of the tag extraction) fails on the code when the closing
  tag is split over two fragments: line 173 empties \<open>current_chunk\<close> after every fragment
  that does not hold the whole of \<open></think>\<close>, so the two halves are never seen together.
  On the spec's own fragments, followed by one more fragment of the answer, the loop
  never takes the \<open>break\<close>, never closes the stream, and returns the span with the text
  after it.
\<close>

theorem split_closing_tag_is_missed:
  "fst (snd (get_ollama_deepseek_reasoning rich_sample (ModelChain_init None None) ''hi'' 45
        (Stream [content_line ''<th'', content_line ''ink>partial'',
                 content_line '' reasoning</thi'', content_line ''nk>'',
                 content_line ''The answer''] None)))
     = Inr ''<think>partial reasoning</think>The answer''
   \<and> Close \<notin> set (fst (get_ollama_deepseek_reasoning rich_sample (ModelChain_init None None) ''hi'' 45
        (Stream [content_line ''<th'', content_line ''ink>partial'',
                 content_line '' reasoning</thi'', content_line ''nk>'',
                 content_line ''The answer''] None)))
   \<and> snd (think_try (ModelChain_init None None) ''hi''
        (Stream [content_line ''<th'', content_line ''ink>partial'',
                 content_line '' reasoning</thi'', content_line ''nk>'',
                 content_line ''The answer''] None))
     = Inr (\<lparr>reasoning_content = ''<think>partial reasoning</think>The answer'',
              current_chunk = [], has_started_think = True\<rparr>, False)
   \<and> fst (snd (get_ollama_deepseek_reasoning rich_sample (ModelChain_init None None) ''hi'' 45
        (Stream [content_line ''<th'', content_line ''ink>partial'',
                 content_line '' reasoning</think>'',
                 content_line ''The answer''] None)))
     = Inr ''<think>partial reasoning</think>''
   \<and> Close \<in> set (fst (get_ollama_deepseek_reasoning rich_sample (ModelChain_init None None) ''hi'' 45
        (Stream [content_line ''<th'', content_line ''ink>partial'',
                 content_line '' reasoning</think>'',
                 content_line ''The answer''] None)))"
  by code_simp

text \<open>
  Claim C8 (the elapsed-time label) holds for the label of the local reasoning call, see
  \<open>time_str_45\<close>, \<open>time_str_125\<close> and \<open>ollama_reasoning_prints_label\<close>. The hosted
  reasoning call never builds the label: with a key configured and a stream that ends
  cleanly, it raises \<open>NameError\<close> at line 106, after the reasoning has been printed and
  before any label is.
\<close>

theorem hosted_reasoning_raises_before_label:
  "get_official_deepseek_reasoning (ModelChain_init (Some ''key'') None) ''explain X''
        (Stream [reasoning_chunk ''because Y''] None)
     = ([Rprint ''\<newline>[blue]Reasoning Process[/]'',
         Create ''deepseek-reasoner'' [\<lparr>role = ''user'', content = ''explain X''\<rparr>],
         Print ''because Y''],
        Inl (NameError (''name '' @ quoted ''start_time'' @ '' is not defined'')),
        (ModelChain_init (Some ''key'') None)
          \<lparr>deepseek_messages := [\<lparr>role = ''user'', content = ''explain X''\<rparr>]\<rparr>)
   \<and> fst (snd (main_step (ModelChain_init (Some ''key'') None) (Input ''explain X'') scenario_env))
     = Raise (NameError (''name '' @ quoted ''start_time'' @ '' is not defined''))"
  by code_simp

end
